theory Spec2Isabelle
  imports Complex_Main
begin

section \<open>Data model of the audit engine (run_audit.py)\<close>

text \<open>
  Python floats are modelled as exact reals: every formula below is the one the source
  writes, evaluated without rounding error. Counts (numpy and Python integers) are
  naturals, embedded into the reals where the source divides or multiplies them by a float.

  The payload of an issue record is a loosely typed Python dict. It is modelled as an
  association list from keys to JSON-like values, in insertion order.
\<close>

datatype jval =
    JNone
  | JNaN
  | JBool bool
  | JInt int
  | JNum real
  | JStr string
  | JStamp int
  | JList "jval list"
  | JDict "(string \<times> jval) list"

type_synonym pydict = "(string \<times> jval) list"

text \<open>\<^verbatim>\<open>d[k] = v\<close>: an existing key keeps its position and takes the new value, a new key
  is appended.\<close>

fun dict_set :: "pydict \<Rightarrow> string \<Rightarrow> jval \<Rightarrow> pydict" where
  "dict_set [] k v = [(k, v)]"
| "dict_set ((k', v') # d) k v = (if k' = k then (k, v) # d else (k', v') # dict_set d k v)"

text \<open>\<^verbatim>\<open>d.get(k)\<close>: the value, or None.\<close>

definition dict_get :: "pydict \<Rightarrow> string \<Rightarrow> jval option" where
  "dict_get d k = map_of d k"

text \<open>The dataclass \<^verbatim>\<open>CheckResult\<close> (lines 20-25); the comment on \<^verbatim>\<open>impact\<close> reads
  "0..1 normalized".\<close>

record CheckResult =
  name :: string
  severity :: string
  issues :: "pydict list"
  impact :: real

section \<open>Scorer\<close>

definition SEVERITY_WEIGHTS :: "(string \<times> real) list" where
  "SEVERITY_WEIGHTS = [(''critical'', 3), (''major'', 2), (''minor'', 1)]"

text \<open>\<^verbatim>\<open>SEVERITY_WEIGHTS.get(r.severity, 1)\<close>\<close>

definition severity_weight :: "string \<Rightarrow> real" where
  "severity_weight s = (case map_of SEVERITY_WEIGHTS s of Some w \<Rightarrow> w | None \<Rightarrow> 1)"

text \<open>Python's \<^verbatim>\<open>round\<close> rounds to the nearest value and a tie to the even neighbour. It is
  applied here to the exact real; the program applies it to the binary float, which at a
  decimal tie of the exact value (99.55, say) lies just above or just below the tie.\<close>

definition round_half_even :: "real \<Rightarrow> int" where
  "round_half_even x =
     (let f = \<lfloor>x\<rfloor>; d = x - of_int f in
      if d < 1 / 2 then f
      else if 1 / 2 < d then f + 1
      else if even f then f else f + 1)"

definition py_round :: "real \<Rightarrow> nat \<Rightarrow> real" where
  "py_round x ndigits = of_int (round_half_even (x * 10 ^ ndigits)) / 10 ^ ndigits"

text \<open>The loop of \<^verbatim>\<open>compute_score\<close> (lines 147-149): the running penalty after the
  findings seen so far.\<close>

fun penalty_loop :: "real \<Rightarrow> CheckResult list \<Rightarrow> real" where
  "penalty_loop penalty [] = penalty"
| "penalty_loop penalty (r # rs) =
     penalty_loop (penalty + severity_weight (severity r) * impact r * 10) rs"

definition compute_score :: "CheckResult list \<Rightarrow> real" where
  "compute_score results =
     (let penalty = penalty_loop 0 results;
          score = max 0 (100 - penalty)
      in py_round score 1)"

text \<open>The scoring formula as the specification words it.\<close>

definition clamp :: "real \<Rightarrow> real \<Rightarrow> real \<Rightarrow> real" where
  "clamp x lo hi = max lo (min hi x)"

text \<open>"y is x rounded to \<^verbatim>\<open>ndigits\<close> decimals", stated without the rounding function: y is a
  multiple of 10 to the power -ndigits, and no further from x than half of that. Where x lies
  exactly half-way between two such multiples, either is a rounding of x: there the
  program's result depends on the binary float that stands for x.\<close>

definition rounded_to :: "nat \<Rightarrow> real \<Rightarrow> real \<Rightarrow> bool" where
  "rounded_to ndigits x y =
     (of_int \<lfloor>y * 10 ^ ndigits\<rfloor> = y * 10 ^ ndigits
      \<and> \<bar>y - x\<bar> * (2 * 10 ^ ndigits) \<le> 1)"

section \<open>Dataset\<close>

text \<open>
  A pandas DataFrame as the loaders build it (\<^verbatim>\<open>read_csv\<close>, \<^verbatim>\<open>read_excel\<close>): named columns
  over a default range index, so a row's index label is its position. A cell is missing
  (NaN, None or NaT), a boolean, a number, a string or a timestamp.
\<close>

datatype cell = NA | Flag bool | Num real | Str string | Stamp int

record column =
  cname :: string
  dtype :: string
  cells :: "cell list"

record dataframe =
  nrows :: nat
  columns :: "column list"

text \<open>Column labels are distinct and every column holds one cell per row.\<close>

definition wf_df :: "dataframe \<Rightarrow> bool" where
  "wf_df df = (distinct (map cname (columns df))
             \<and> list_all (\<lambda>c. length (cells c) = nrows df) (columns df))"

text \<open>
  The library functions the checks call whose result depends on pandas, numpy or the
  regular-expression engine are parameters of the model, collected in one record:
  the three dtype predicates; \<^verbatim>\<open>pd.to_numeric(errors="coerce")\<close> per value (None is NaN);
  \<^verbatim>\<open>pd.to_datetime(errors="coerce", utc=True)\<close> per column (None when the call raises, and
  None for a value it turns into NaT); \<^verbatim>\<open>astype(str)\<close> per value; the regular-expression
  tests of \<^verbatim>\<open>check_semantic_regex\<close>; and the formatted explanation text of the enrichment.
\<close>

record pandas =
  is_numeric_dtype :: "column \<Rightarrow> bool"
  is_string_dtype :: "column \<Rightarrow> bool"
  is_datetime64_any_dtype :: "column \<Rightarrow> bool"
  to_numeric :: "cell \<Rightarrow> real option"
  to_datetime :: "column \<Rightarrow> int option list option"
  astype_str :: "cell \<Rightarrow> string"
  contains_letter_digit :: "string \<Rightarrow> bool"
  match_email :: "string \<Rightarrow> bool"
  match_uk_postcode :: "string \<Rightarrow> bool"
  explain_text :: "string \<Rightarrow> real \<Rightarrow> real \<Rightarrow> string"

datatype py_error = KeyError string | TypeError

definition column_names :: "dataframe \<Rightarrow> string list" where
  "column_names df = map cname (columns df)"

text \<open>\<^verbatim>\<open>df[c]\<close>\<close>

definition get_column :: "dataframe \<Rightarrow> string \<Rightarrow> column option" where
  "get_column df c = find (\<lambda>col. cname col = c) (columns df)"

text \<open>The rows of the frame, each as the list of its cells in column order.\<close>

definition df_rows :: "dataframe \<Rightarrow> cell list list" where
  "df_rows df = map (\<lambda>i. map (\<lambda>c. cells c ! i) (columns df)) [0..<nrows df]"

text \<open>The rows restricted to the columns \<^verbatim>\<open>labels\<close>; a label that is not a column raises
  KeyError.\<close>

fun select_columns :: "dataframe \<Rightarrow> string list \<Rightarrow> py_error + column list" where
  "select_columns df [] = Inr []"
| "select_columns df (k # ks) =
     (case get_column df k of
        None \<Rightarrow> Inl (KeyError k)
      | Some c \<Rightarrow> (case select_columns df ks of Inl e \<Rightarrow> Inl e | Inr cs \<Rightarrow> Inr (c # cs)))"

definition subset_rows :: "dataframe \<Rightarrow> string list \<Rightarrow> py_error + cell list list" where
  "subset_rows df labels =
     (case select_columns df labels of
        Inl e \<Rightarrow> Inl e
      | Inr cs \<Rightarrow> Inr (map (\<lambda>i. map (\<lambda>c. cells c ! i) cs) [0..<nrows df]))"

text \<open>\<^verbatim>\<open>duplicated(keep="first")\<close>, the default: a row is marked when an earlier row equals
  it. Missing values compare equal to each other, as in pandas.\<close>

fun duplicated_scan :: "'a list \<Rightarrow> 'a list \<Rightarrow> bool list" where
  "duplicated_scan seen [] = []"
| "duplicated_scan seen (r # rs) = (r \<in> set seen) # duplicated_scan (r # seen) rs"

definition duplicated :: "'a list \<Rightarrow> bool list" where
  "duplicated rows = duplicated_scan [] rows"

text \<open>\<^verbatim>\<open>duplicated(keep=False)\<close>: every row that occurs more than once is marked.\<close>

definition duplicated_keep_false :: "'a list \<Rightarrow> bool list" where
  "duplicated_keep_false rows = map (\<lambda>r. 1 < count_list rows r) rows"

text \<open>\<^verbatim>\<open>DataFrame.duplicated\<close> starts with \<^verbatim>\<open>if self.empty\<close>: a frame with no row or no
  column gives the empty series, before the labels of \<^verbatim>\<open>subset\<close> are looked up.\<close>

definition df_empty :: "dataframe \<Rightarrow> bool" where
  "df_empty df = (nrows df = 0 \<or> columns df = [])"

definition key_rows :: "dataframe \<Rightarrow> string list \<Rightarrow> py_error + cell list list" where
  "key_rows df labels = (if df_empty df then Inr [] else subset_rows df labels)"

definition all_rows :: "dataframe \<Rightarrow> cell list list" where
  "all_rows df = (if df_empty df then [] else df_rows df)"

text \<open>\<^verbatim>\<open>mask.sum()\<close> and the positions a boolean mask selects.\<close>

definition count_true :: "bool list \<Rightarrow> nat" where
  "count_true flags = length (filter (\<lambda>b. b) flags)"

definition mask_positions :: "bool list \<Rightarrow> nat list" where
  "mask_positions flags = filter (\<lambda>i. flags ! i) [0..<length flags]"

definition cell_json :: "cell \<Rightarrow> jval" where
  "cell_json v = (case v of NA \<Rightarrow> JNaN | Flag b \<Rightarrow> JBool b | Num x \<Rightarrow> JNum x
                   | Str s \<Rightarrow> JStr s | Stamp t \<Rightarrow> JStamp t)"

text \<open>One record of \<^verbatim>\<open>to_dict(orient="records")\<close>: the row as a dict from label to value.\<close>

definition row_record :: "string list \<Rightarrow> cell list \<Rightarrow> pydict" where
  "row_record labels vals = fold (\<lambda>(k, v) d. dict_set d k (cell_json v)) (zip labels vals) []"

section \<open>Checks\<close>

text \<open>\<^verbatim>\<open>norm\<close> (lines 27-28). Every call passes a cap of at least 10.\<close>

definition norm_impact :: "real \<Rightarrow> real \<Rightarrow> real" where
  "norm_impact x cap = max 0 (min 1 (x / cap))"

text \<open>The baseline is the JSON object \<^verbatim>\<open>{columns, dtypes, primary_key}\<close>, each key optional;
  the object with no key is the empty dict, which Python treats as false.\<close>

record baseline =
  b_columns :: "string list option"
  b_dtypes :: "(string \<times> string) list option"
  b_primary_key :: "string list option"

definition falsy_baseline :: "baseline option \<Rightarrow> bool" where
  "falsy_baseline b = (case b of None \<Rightarrow> True
     | Some bl \<Rightarrow> b_columns bl = None \<and> b_dtypes bl = None \<and> b_primary_key bl = None)"

text \<open>The drift loop of \<^verbatim>\<open>check_schema\<close> (lines 52-56).\<close>

fun dtype_drift :: "dataframe \<Rightarrow> (string \<times> string) list \<Rightarrow> pydict list" where
  "dtype_drift df [] = []"
| "dtype_drift df ((c, expd) # rest) =
     (case get_column df c of
        None \<Rightarrow> dtype_drift df rest
      | Some col \<Rightarrow>
          (if dtype col \<noteq> expd
           then [(''column'', JStr c), (''expected'', JStr expd), (''actual'', JStr (dtype col))]
                # dtype_drift df rest
           else dtype_drift df rest))"

text \<open>\<^verbatim>\<open>check_schema\<close>. The two set differences are listed in the order of the operand they
  come from (Python lists a set in an order that is not specified).\<close>

definition check_schema :: "dataframe \<Rightarrow> baseline option \<Rightarrow> CheckResult list" where
  "check_schema df b =
     (if falsy_baseline b then []
      else
        let bl = the b;
            expected_cols = remdups (case b_columns bl of None \<Rightarrow> [] | Some cs \<Rightarrow> cs);
            actual_cols = remdups (column_names df);
            missing = filter (\<lambda>c. c \<notin> set actual_cols) expected_cols;
            new = filter (\<lambda>c. c \<notin> set expected_cols) actual_cols;
            drift = dtype_drift df (case b_dtypes bl of None \<Rightarrow> [] | Some d \<Rightarrow> d)
        in (if missing \<noteq> []
            then [\<lparr>name = ''Missing Columns'', severity = ''critical'',
                   issues = [[(''missing'', JList (map JStr missing))]],
                   impact = norm_impact (real (length missing)) 10\<rparr>]
            else [])
         @ (if new \<noteq> []
            then [\<lparr>name = ''Unexpected Columns'', severity = ''major'',
                   issues = [[(''new'', JList (map JStr new))]],
                   impact = norm_impact (real (length new)) 10\<rparr>]
            else [])
         @ (if drift \<noteq> []
            then [\<lparr>name = ''Dtype Drift'', severity = ''major'', issues = drift,
                   impact = norm_impact (real (length drift)) 15\<rparr>]
            else []))"

text \<open>\<^verbatim>\<open>check_primary_key\<close>; \<^verbatim>\<open>df.duplicated(subset=pk)\<close> raises KeyError on a label that is
  not a column.\<close>

definition check_primary_key :: "dataframe \<Rightarrow> string list \<Rightarrow> py_error + CheckResult list" where
  "check_primary_key df pk =
     (if pk = [] then Inr []
      else case key_rows df pk of
        Inl e \<Rightarrow> Inl e
      | Inr keys \<Rightarrow>
          let dupes = count_true (duplicated keys) in
          if 0 < dupes then
            let ex = take 5 (map (\<lambda>i. row_record pk (keys ! i))
                               (mask_positions (duplicated_keep_false keys)))
            in Inr [\<lparr>name = ''Primary Key Uniqueness'', severity = ''critical'',
                     issues = [[(''duplicates'', JInt (int dupes)),
                                (''examples'', JList (map JDict ex))]],
                     impact = norm_impact (real dupes) (max 10 (real (nrows df) * 0.02))\<rparr>]
          else Inr [])"

text \<open>\<^verbatim>\<open>check_missing_duplicates_types\<close>. \<^verbatim>\<open>df.isna().sum()\<close> counts the missing cells of each
  column; the list \<^verbatim>\<open>dtypes_issue\<close> of line 78 is computed and never used.\<close>

definition isna_sum :: "column \<Rightarrow> nat" where
  "isna_sum c = length (filter (\<lambda>v. v = NA) (cells c))"

definition check_missing_duplicates_types :: "dataframe \<Rightarrow> CheckResult list" where
  "check_missing_duplicates_types df =
     (let miss = filter (\<lambda>(c, v). 0 < v) (map (\<lambda>c. (cname c, isna_sum c)) (columns df));
          dups = count_true (duplicated (all_rows df))
      in (if 0 < length miss
          then [\<lparr>name = ''Missing Values'', severity = ''major'',
                 issues = map (\<lambda>(c, v). [(''column'', JStr c), (''missing'', JInt (int v))]) miss,
                 impact = norm_impact (real (sum_list (map snd miss)))
                            (max 10 (real (nrows df) * 0.05))\<rparr>]
          else [])
       @ (if 0 < dups
          then [\<lparr>name = ''Duplicate Rows'', severity = ''major'',
                 issues = [[(''duplicates'', JInt (int dups))]],
                 impact = norm_impact (real dups) (max 10 (real (nrows df) * 0.03))\<rparr>]
          else []))"

text \<open>\<^verbatim>\<open>np.percentile(s, q)\<close> with the default linear interpolation: on the sorted values,
  the value at the fractional position \<^verbatim>\<open>(n - 1) * q / 100\<close>. The check calls it on ten
  values or more.\<close>

definition percentile :: "real list \<Rightarrow> real \<Rightarrow> real" where
  "percentile s q =
     (let xs = sort s; n = length xs;
          h = real (n - 1) * q / 100;
          lo = nat \<lfloor>h\<rfloor>;
          hi = min (lo + 1) (n - 1)
      in xs ! lo + (h - real lo) * (xs ! hi - xs ! lo))"

text \<open>\<^verbatim>\<open>pd.to_numeric(df[c], errors="coerce").dropna()\<close>\<close>

definition numeric_values :: "pandas \<Rightarrow> column \<Rightarrow> real list" where
  "numeric_values L c = List.map_filter (to_numeric L) (cells c)"

text \<open>Lines 89-91: the quartiles, the floored interquartile range and the two bounds.\<close>

definition iqr_bounds :: "real list \<Rightarrow> real \<times> real \<times> real \<times> real \<times> real" where
  "iqr_bounds s =
     (let q1 = percentile s 25; q3 = percentile s 75;
          iqr = max (q3 - q1) (1 / 10 ^ 9);
          lo = q1 - 1.5 * iqr; hi = q3 + 1.5 * iqr
      in (q1, q3, iqr, lo, hi))"

text \<open>The values the mask \<^verbatim>\<open>(s < lo) | (s > hi)\<close> selects.\<close>

definition outliers :: "real list \<Rightarrow> real \<Rightarrow> real \<Rightarrow> real list" where
  "outliers s lo hi = filter (\<lambda>x. x < lo \<or> hi < x) s"

text \<open>The body of the loop of \<^verbatim>\<open>check_outliers_iqr\<close> for one column (lines 85-94).\<close>

definition outliers_of_column :: "pandas \<Rightarrow> column \<Rightarrow> CheckResult list" where
  "outliers_of_column L c =
     (if is_numeric_dtype L c then
        let s = numeric_values L c in
        if length s < 10 then []
        else
          let (q1, q3, iqr, lo, hi) = iqr_bounds s;
              cnt = length (outliers s lo hi)
          in if 0 < cnt
             then [\<lparr>name = ''IQR Outliers: '' @ cname c, severity = ''major'',
                    issues = [[(''count'', JInt (int cnt)), (''lo'', JNum lo), (''hi'', JNum hi)]],
                    impact = norm_impact (real cnt) (max 10 (real (length s) * 0.05))\<rparr>]
             else []
      else [])"

definition check_outliers_iqr :: "pandas \<Rightarrow> dataframe \<Rightarrow> CheckResult list" where
  "check_outliers_iqr L df = concat (map (outliers_of_column L) (columns df))"

text \<open>\<^verbatim>\<open>value_counts(normalize=True)\<close>: each distinct value with its relative frequency, the
  most frequent first (values of equal frequency in order of first appearance here; pandas
  does not fix their order).\<close>

definition value_counts :: "string list \<Rightarrow> (string \<times> real) list" where
  "value_counts s =
     sort_key (\<lambda>(v, f). - f)
       (map (\<lambda>v. (v, real (count_list s v) / real (length s))) (remdups s))"

definition rare_of_column :: "pandas \<Rightarrow> real \<Rightarrow> column \<Rightarrow> CheckResult list" where
  "rare_of_column L min_ratio c =
     (if is_string_dtype L c \<or> dtype c = ''category'' then
        let vc = value_counts (map (astype_str L) (cells c));
            rare = filter (\<lambda>(v, f). f < min_ratio) vc
        in if 0 < length rare
           then [\<lparr>name = ''Rare Categories: '' @ cname c, severity = ''minor'',
                  issues = [[(''n_rare'', JInt (int (length rare))),
                             (''examples'', JDict (map (\<lambda>(v, f). (v, JNum f)) (take 5 rare)))]],
                  impact = norm_impact (real (length rare)) 50\<rparr>]
           else []
      else [])"

text \<open>\<^verbatim>\<open>check_rare_categories\<close> with its default \<^verbatim>\<open>min_ratio=0.01\<close>, as every caller uses it.\<close>

definition check_rare_categories :: "pandas \<Rightarrow> dataframe \<Rightarrow> CheckResult list" where
  "check_rare_categories L df = concat (map (rare_of_column L 0.01) (columns df))"

text \<open>The mean of a boolean series: the share of true values.\<close>

definition mean_true :: "bool list \<Rightarrow> real" where
  "mean_true flags = real (count_true flags) / real (length flags)"

definition semantic_of_column :: "pandas \<Rightarrow> column \<Rightarrow> CheckResult list" where
  "semantic_of_column L c =
     (if is_string_dtype L c then
        let sample = map (astype_str L) (filter (\<lambda>v. v \<noteq> NA) (cells c)) in
        if length sample = 0 then []
        else
          let like_email = (0.5 < mean_true (map (\<lambda>x. CHR ''@'' \<in> set x) sample));
              like_pc = (0.5 < mean_true (map (contains_letter_digit L) sample));
              bad_email = mean_true (map (\<lambda>x. \<not> match_email L x) sample);
              bad_pc = mean_true (map (\<lambda>x. \<not> match_uk_postcode L x) sample)
          in (if like_email \<and> 0.3 < bad_email
              then [\<lparr>name = ''Semantic Violations (email) in '' @ cname c, severity = ''major'',
                     issues = [[(''fail_rate'', JNum (py_round bad_email 3))]],
                     impact = min 1 bad_email\<rparr>]
              else [])
           @ (if like_pc \<and> 0.3 < bad_pc
              then [\<lparr>name = ''Semantic Violations (UK postcode) in '' @ cname c,
                     severity = ''major'',
                     issues = [[(''fail_rate'', JNum (py_round bad_pc 3))]],
                     impact = min 1 bad_pc\<rparr>]
              else [])
      else [])"

definition check_semantic_regex :: "pandas \<Rightarrow> dataframe \<Rightarrow> CheckResult list" where
  "check_semantic_regex L df = concat (map (semantic_of_column L) (columns df))"

subsection \<open>Dates\<close>

text \<open>\<^verbatim>\<open>str.lower\<close> and the substring test \<^verbatim>\<open>in\<close>. Only the ASCII capitals are lowered:
  no other character lowers to a letter of "date", and the bytes of a character beyond
  ASCII are none of these letters.\<close>

definition lower_char :: "char \<Rightarrow> char" where
  "lower_char c =
     (case map_of (zip ''ABCDEFGHIJKLMNOPQRSTUVWXYZ'' ''abcdefghijklmnopqrstuvwxyz'') c of
        Some l \<Rightarrow> l
      | None \<Rightarrow> c)"

definition lower :: "string \<Rightarrow> string" where
  "lower s = map lower_char s"

fun startswith :: "'a list \<Rightarrow> 'a list \<Rightarrow> bool" where
  "startswith s [] = True"
| "startswith [] (p # ps) = False"
| "startswith (x # xs) (p # ps) = (x = p \<and> startswith xs ps)"

fun contains :: "string \<Rightarrow> string \<Rightarrow> bool" where
  "contains [] sub = (sub = [])"
| "contains (x # xs) sub = (startswith (x # xs) sub \<or> contains xs sub)"

definition is_date_column :: "pandas \<Rightarrow> column \<Rightarrow> bool" where
  "is_date_column L c = (contains (lower (cname c)) ''date'' \<or> is_datetime64_any_dtype L c)"

text \<open>The first loop of \<^verbatim>\<open>check_dates\<close> (lines 131-135): the dict \<^verbatim>\<open>parsed\<close>, in insertion
  order; a column whose coercion raises is left out.\<close>

fun parse_dates :: "pandas \<Rightarrow> column list \<Rightarrow> (string \<times> int option list) list" where
  "parse_dates L [] = []"
| "parse_dates L (c # cs) =
     (case to_datetime L c of
        None \<Rightarrow> parse_dates L cs
      | Some s \<Rightarrow> (cname c, s) # parse_dates L cs)"

text \<open>\<^verbatim>\<open>s.isna().sum()\<close> on a coerced column.\<close>

definition count_nat :: "int option list \<Rightarrow> nat" where
  "count_nat s = length (filter (\<lambda>v. v = None) s)"

definition invalid_dates_of :: "dataframe \<Rightarrow> string \<times> int option list \<Rightarrow> CheckResult list" where
  "invalid_dates_of df cs =
     (let invalid = count_nat (snd cs) in
      if 0 < invalid
      then [\<lparr>name = ''Invalid Dates: '' @ fst cs, severity = ''minor'',
             issues = [[(''invalid'', JInt (int invalid))]],
             impact = norm_impact (real invalid) (max 10 (real (nrows df) * 0.05))\<rparr>]
      else [])"

text \<open>\<^verbatim>\<open>(parsed["ship_date"] < parsed["order_date"]).sum()\<close>: a comparison with NaT is false.\<close>

definition ship_before_order :: "int option list \<Rightarrow> int option list \<Rightarrow> nat" where
  "ship_before_order ship ordered =
     length (filter (\<lambda>(s, r). case (s, r) of (Some a, Some b) \<Rightarrow> a < b | _ \<Rightarrow> False)
               (zip ship ordered))"

text \<open>The name of the temporal rule holds the sign for "greater or equal", U+2265, three
  bytes in UTF-8.\<close>

definition temporal_rule_name :: string where
  "temporal_rule_name = ''Temporal Rule: ship_date '' @ [CHR 0xE2, CHR 0x89, CHR 0xA5] @ '' order_date''"

definition check_dates :: "pandas \<Rightarrow> dataframe \<Rightarrow> CheckResult list" where
  "check_dates L df =
     (let date_cols = filter (is_date_column L) (columns df);
          parsed = parse_dates L date_cols
      in concat (map (invalid_dates_of df) parsed)
       @ (case (map_of parsed ''order_date'', map_of parsed ''ship_date'') of
            (Some ordered, Some ship) \<Rightarrow>
              (let bad = ship_before_order ship ordered in
               if 0 < bad
               then [\<lparr>name = temporal_rule_name, severity = ''major'',
                      issues = [[(''violations'', JInt (int bad))]],
                      impact = norm_impact (real bad) (max 10 (real (nrows df) * 0.05))\<rparr>]
               else [])
          | _ \<Rightarrow> []))"

section \<open>The audit of app.py: all checks, then the enrichment\<close>

text \<open>Lines 262-270 of \<^verbatim>\<open>run\<close> (and 166-175 of \<^verbatim>\<open>main\<close>): the seven checks, concatenated.
  The primary-key check runs when the baseline is given and has the key
  \<^verbatim>\<open>primary_key\<close>; its KeyError is not caught.\<close>

definition run_checks :: "pandas \<Rightarrow> dataframe \<Rightarrow> baseline option \<Rightarrow> py_error + CheckResult list" where
  "run_checks L df b =
     (case (if \<not> falsy_baseline b \<and> b_primary_key (the b) \<noteq> None
            then check_primary_key df (the (b_primary_key (the b)))
            else Inr []) of
        Inl e \<Rightarrow> Inl e
      | Inr pk_results \<Rightarrow>
          Inr (check_schema df b @ pk_results @ check_missing_duplicates_types df
               @ check_outliers_iqr L df @ check_rare_categories L df
               @ check_semantic_regex L df @ check_dates L df))"

text \<open>Lines 273-283: the first finding named "Duplicate Rows" that has an issue record
  gets three keys in its first record, when the frame has a duplicated row. In Python the
  findings are mutated in place; each check builds its own records, so no two findings
  share one, and the new list of findings is returned here.\<close>

definition add_duplicate_evidence :: "dataframe \<Rightarrow> nat list \<Rightarrow> pydict \<Rightarrow> pydict" where
  "add_duplicate_evidence df idx d =
     dict_set
       (dict_set
          (dict_set d ''row_indices'' (JList (map (\<lambda>i. JInt (int i)) idx)))
          ''sample_rows''
          (JList (map (\<lambda>i. JDict (row_record (column_names df) (df_rows df ! i))) (take 10 idx))))
       ''columns'' (JList (map JStr (column_names df)))"

fun enrich_first_duplicate :: "dataframe \<Rightarrow> nat list \<Rightarrow> CheckResult list \<Rightarrow> CheckResult list" where
  "enrich_first_duplicate df idx [] = []"
| "enrich_first_duplicate df idx (r # rs) =
     (if name r = ''Duplicate Rows'' \<and> issues r \<noteq> []
      then r\<lparr>issues := add_duplicate_evidence df idx (hd (issues r)) # tl (issues r)\<rparr> # rs
      else r # enrich_first_duplicate df idx rs)"

definition enrich_duplicates :: "dataframe \<Rightarrow> CheckResult list \<Rightarrow> CheckResult list" where
  "enrich_duplicates df results =
     (let idx = mask_positions (duplicated_keep_false (all_rows df)) in
      if idx \<noteq> [] then enrich_first_duplicate df idx results else results)"

text \<open>\<^verbatim>\<open>r.name.split(":", 1)[1].strip()\<close>: the text after the first colon, without the
  white space at its ends; None when the name has no colon (the IndexError is caught).\<close>

fun after_colon :: "string \<Rightarrow> string option" where
  "after_colon [] = None"
| "after_colon (x # xs) = (if x = CHR '':'' then Some xs else after_colon xs)"

text \<open>The white space of \<^verbatim>\<open>str.strip()\<close>, on the UTF-8 bytes of the string: the ASCII
  characters U+0009 to U+000D, U+001C to U+001F and U+0020 in one byte; U+0085 and U+00A0 in
  two; U+1680, U+2000 to U+200A, U+2028, U+2029, U+202F, U+205F and U+3000 in three.\<close>

definition is_space :: "char \<Rightarrow> bool" where
  "is_space c = (c \<in> set [CHR 0x09, CHR 0x0A, CHR 0x0B, CHR 0x0C, CHR 0x0D,
                            CHR 0x1C, CHR 0x1D, CHR 0x1E, CHR 0x1F, CHR 0x20])"

definition is_space2 :: "char \<Rightarrow> char \<Rightarrow> bool" where
  "is_space2 a b = (a = CHR 0xC2 \<and> (b = CHR 0x85 \<or> b = CHR 0xA0))"

definition is_space3 :: "char \<Rightarrow> char \<Rightarrow> char \<Rightarrow> bool" where
  "is_space3 a b c =
     ((a = CHR 0xE1 \<and> b = CHR 0x9A \<and> c = CHR 0x80)
      \<or> (a = CHR 0xE2 \<and> b = CHR 0x80
          \<and> c \<in> set [CHR 0x80, CHR 0x81, CHR 0x82, CHR 0x83, CHR 0x84, CHR 0x85, CHR 0x86,
                        CHR 0x87, CHR 0x88, CHR 0x89, CHR 0x8A, CHR 0xA8, CHR 0xA9, CHR 0xAF])
      \<or> (a = CHR 0xE2 \<and> b = CHR 0x81 \<and> c = CHR 0x9F)
      \<or> (a = CHR 0xE3 \<and> b = CHR 0x80 \<and> c = CHR 0x80))"

text \<open>White space removed from the front of a string, and from the front of a reversed
  string (where the bytes of a character come last byte first).\<close>

fun lstrip :: "string \<Rightarrow> string" where
  "lstrip (a # b # c # s) =
     (if is_space a then lstrip (b # c # s)
      else if is_space2 a b then lstrip (c # s)
      else if is_space3 a b c then lstrip s
      else a # b # c # s)"
| "lstrip [a, b] = (if is_space a then lstrip [b] else if is_space2 a b then [] else [a, b])"
| "lstrip [a] = (if is_space a then [] else [a])"
| "lstrip [] = []"

fun lstrip_reversed :: "string \<Rightarrow> string" where
  "lstrip_reversed (a # b # c # s) =
     (if is_space a then lstrip_reversed (b # c # s)
      else if is_space2 b a then lstrip_reversed (c # s)
      else if is_space3 c b a then lstrip_reversed s
      else a # b # c # s)"
| "lstrip_reversed [a, b] =
     (if is_space a then lstrip_reversed [b] else if is_space2 b a then [] else [a, b])"
| "lstrip_reversed [a] = (if is_space a then [] else [a])"
| "lstrip_reversed [] = []"

definition strip :: "string \<Rightarrow> string" where
  "strip s = rev (lstrip_reversed (rev (lstrip s)))"

text \<open>A stored bound as a number; a missing bound, a string, a list or a dict makes the
  comparison with the column raise TypeError. (A NaN bound, which no check stores, is not
  a real number and is grouped with them here.)\<close>

definition bound_of :: "jval option \<Rightarrow> real option" where
  "bound_of v = (case v of Some (JNum x) \<Rightarrow> Some x | Some (JInt k) \<Rightarrow> Some (of_int k)
                   | Some (JBool b) \<Rightarrow> Some (if b then 1 else 0) | _ \<Rightarrow> None)"

text \<open>The positions and values of the column \<^verbatim>\<open>s\<close> outside the stored bounds; NaN is never
  outside.\<close>

definition outlier_positions :: "real option list \<Rightarrow> real \<Rightarrow> real \<Rightarrow> (nat \<times> real) list" where
  "outlier_positions s lo hi =
     List.map_filter (\<lambda>(i, v). case v of None \<Rightarrow> None
                               | Some x \<Rightarrow> if x < lo \<or> hi < x then Some (i, x) else None)
       (zip [0..<length s] s)"

text \<open>Lines 294-308 for one finding whose column \<^verbatim>\<open>col\<close> is a column of the frame. The
  sample is the ten values of largest magnitude (equal magnitudes in row order here).\<close>

definition add_outlier_evidence :: "pandas \<Rightarrow> column \<Rightarrow> real \<Rightarrow> real \<Rightarrow> pydict \<Rightarrow> pydict" where
  "add_outlier_evidence L c lo hi info =
     (let hits = outlier_positions (map (to_numeric L) (cells c)) lo hi;
          sample = map (\<lambda>(i, x). JDict [(''index'', JInt (int i)), (''value'', JNum x)])
                     (take 10 (sort_key (\<lambda>(i, x). - \<bar>x\<bar>) hits))
      in dict_set
           (dict_set
              (dict_set
                 (dict_set info ''column'' (JStr (cname c)))
                 ''row_indices'' (JList (map (\<lambda>(i, x). JInt (int i)) hits)))
              ''sample_values'' (JList sample))
           ''explain'' (JStr (explain_text L (cname c) lo hi)))"

definition enrich_outlier :: "pandas \<Rightarrow> dataframe \<Rightarrow> CheckResult \<Rightarrow> py_error + CheckResult" where
  "enrich_outlier L df r =
     (if startswith (name r) ''IQR Outliers'' then
        (case after_colon (name r) of
           None \<Rightarrow> Inr r
         | Some rest \<Rightarrow>
             (let col = strip rest in
              if col \<noteq> [] \<and> issues r \<noteq> [] then
                (case get_column df col of
                   None \<Rightarrow> Inr r
                 | Some c \<Rightarrow>
                     (let info = hd (issues r) in
                      case (bound_of (dict_get info ''lo''), bound_of (dict_get info ''hi'')) of
                        (Some lo, Some hi) \<Rightarrow>
                          Inr (r\<lparr>issues := add_outlier_evidence L c lo hi info # tl (issues r)\<rparr>)
                      | _ \<Rightarrow> Inl TypeError))
              else Inr r))
      else Inr r)"

text \<open>The loop of lines 286-308: it stops at the first finding that raises.\<close>

fun enrich_outliers :: "pandas \<Rightarrow> dataframe \<Rightarrow> CheckResult list \<Rightarrow> py_error + CheckResult list" where
  "enrich_outliers L df [] = Inr []"
| "enrich_outliers L df (r # rs) =
     (case enrich_outlier L df r of
        Inl e \<Rightarrow> Inl e
      | Inr r' \<Rightarrow> (case enrich_outliers L df rs of Inl e \<Rightarrow> Inl e | Inr rs' \<Rightarrow> Inr (r' # rs')))"

definition enrich :: "pandas \<Rightarrow> dataframe \<Rightarrow> CheckResult list \<Rightarrow> py_error + CheckResult list" where
  "enrich L df results = enrich_outliers L df (enrich_duplicates df results)"

section \<open>Notions of the specification used by the claims\<close>

text \<open>The positions of the rows that equal an earlier row, and of the rows that equal some
  other row, stated on positions rather than by a scan.\<close>

definition rows_equal_to_earlier :: "'a list \<Rightarrow> nat list" where
  "rows_equal_to_earlier keys =
     filter (\<lambda>i. list_ex (\<lambda>j. keys ! j = keys ! i) [0..<i]) [0..<length keys]"

definition rows_equal_to_other :: "'a list \<Rightarrow> nat list" where
  "rows_equal_to_other keys =
     filter (\<lambda>i. list_ex (\<lambda>j. j \<noteq> i \<and> keys ! j = keys ! i) [0..<length keys]) [0..<length keys]"

text \<open>\<^verbatim>\<open>normalize(x, cap) = clamp(x / cap, 0, 1)\<close>, as the specification words it.\<close>

definition spec_normalize :: "real \<Rightarrow> real \<Rightarrow> real" where
  "spec_normalize x cap = clamp (x / cap) 0 1"

text \<open>The values of each row across the key columns.\<close>

definition key_values :: "dataframe \<Rightarrow> string list \<Rightarrow> cell list list" where
  "key_values df pk =
     map (\<lambda>i. map (\<lambda>k. case get_column df k of Some c \<Rightarrow> cells c ! i | None \<Rightarrow> NA) pk)
       [0..<nrows df]"

section \<open>Example inputs\<close>

text \<open>Three orders, two of them with the same id.\<close>

definition ex_orders :: dataframe where
  "ex_orders = \<lparr>nrows = 3, columns =
     [\<lparr>cname = ''id'', dtype = ''int64'', cells = [Num 1, Num 1, Num 2]\<rparr>,
      \<lparr>cname = ''amount'', dtype = ''float64'', cells = [Num 5, Num 6, Num 7]\<rparr>]\<rparr>"

text \<open>An instance of the library functions for the examples: integer and float columns are
  numeric, object columns are strings, a number converts to itself, and the date coercion
  keeps a timestamp and turns every other value into NaT.\<close>

definition sample_pandas :: pandas where
  "sample_pandas =
     \<lparr>is_numeric_dtype = (\<lambda>c. dtype c = ''int64'' \<or> dtype c = ''float64''),
      is_string_dtype = (\<lambda>c. dtype c = ''object''),
      is_datetime64_any_dtype = (\<lambda>c. dtype c = ''datetime64[ns]''),
      to_numeric = (\<lambda>v. case v of Num x \<Rightarrow> Some x | _ \<Rightarrow> None),
      to_datetime = (\<lambda>c. Some (map (\<lambda>v. case v of Stamp t \<Rightarrow> Some t | _ \<Rightarrow> None) (cells c))),
      astype_str = (\<lambda>v. case v of Str s \<Rightarrow> s | _ \<Rightarrow> ''nan''),
      contains_letter_digit = (\<lambda>s. False),
      match_email = (\<lambda>s. CHR ''.'' \<in> set s),
      match_uk_postcode = (\<lambda>s. False),
      explain_text = (\<lambda>c lo hi. ''IQR rule on '' @ c)\<rparr>"

text \<open>The ten values of the worked example of the interquartile-range rule.\<close>

definition iqr_sample :: "real list" where
  "iqr_sample = [1, 2, 3, 4, 5, 6, 7, 8, 9, 100]"

definition iqr_frame :: dataframe where
  "iqr_frame = \<lparr>nrows = 10, columns = [\<lparr>cname = ''x'', dtype = ''int64'', cells = map Num iqr_sample\<rparr>]\<rparr>"

text \<open>Shipments whose date column holds a timestamp, a text that is no date and a missing
  value.\<close>

definition ex_shipments :: dataframe where
  "ex_shipments = \<lparr>nrows = 3, columns =
     [\<lparr>cname = ''Ship_Date'', dtype = ''object'', cells = [Stamp 10, Str ''n/a'', NA]\<rparr>,
      \<lparr>cname = ''qty'', dtype = ''int64'', cells = [Num 1, Num 2, Num 3]\<rparr>]\<rparr>"

text \<open>The keys the enrichment sets in the first issue record of the duplicate-rows finding
  and of an outlier finding.\<close>

definition duplicate_keys :: "string list" where
  "duplicate_keys = [''row_indices'', ''sample_rows'', ''columns'']"

definition outlier_keys :: "string list" where
  "outlier_keys = [''column'', ''row_indices'', ''sample_values'', ''explain'']"

text \<open>The issue records \<^verbatim>\<open>new\<close> are the records \<^verbatim>\<open>old\<close> with at most the keys \<^verbatim>\<open>ks\<close> set in the
  first record: every later record, and every entry of the first record under another key,
  is as before and in the same place.\<close>

definition adds_only :: "string list \<Rightarrow> pydict list \<Rightarrow> pydict list \<Rightarrow> bool" where
  "adds_only ks old new =
     (length new = length old \<and> tl new = tl old
      \<and> filter (\<lambda>p. fst p \<notin> set ks) (hd new) = filter (\<lambda>p. fst p \<notin> set ks) (hd old))"

text \<open>What the enrichment may change in one finding.\<close>

definition enrichment_frame :: "CheckResult \<Rightarrow> CheckResult \<Rightarrow> bool" where
  "enrichment_frame r r' =
     (name r' = name r \<and> severity r' = severity r \<and> impact r' = impact r
      \<and> (if name r = ''Duplicate Rows'' then adds_only duplicate_keys (issues r) (issues r')
          else if startswith (name r) ''IQR Outliers''
               then adds_only outlier_keys (issues r) (issues r')
               else r' = r))"

text \<open>The effect of each of the two passes of the enrichment on one finding.\<close>

definition duplicate_step :: "CheckResult \<Rightarrow> CheckResult \<Rightarrow> bool" where
  "duplicate_step r r' =
     (r' = r \<or> (name r = ''Duplicate Rows'' \<and> name r' = name r \<and> severity r' = severity r
                \<and> impact r' = impact r \<and> adds_only duplicate_keys (issues r) (issues r')))"

definition outlier_step :: "CheckResult \<Rightarrow> CheckResult \<Rightarrow> bool" where
  "outlier_step r r' =
     (r' = r \<or> (startswith (name r) ''IQR Outliers'' \<and> name r' = name r
                \<and> severity r' = severity r \<and> impact r' = impact r
                \<and> adds_only outlier_keys (issues r) (issues r')))"

text \<open>Three sales, the first two equal, and a list of findings to enrich.\<close>

definition ex_sales :: dataframe where
  "ex_sales = \<lparr>nrows = 3, columns =
     [\<lparr>cname = ''amount'', dtype = ''float64'', cells = [Num 5, Num 5, Num 900]\<rparr>]\<rparr>"

definition ex_findings :: "CheckResult list" where
  "ex_findings =
     [\<lparr>name = ''Duplicate Rows'', severity = ''major'',
        issues = [[(''duplicates'', JInt 1)]], impact = 1 / 10\<rparr>,
      \<lparr>name = ''IQR Outliers: amount'', severity = ''major'',
        issues = [[(''count'', JInt 1), (''lo'', JNum 0), (''hi'', JNum 10)]], impact = 1 / 10\<rparr>,
      \<lparr>name = ''Invalid Dates: day'', severity = ''minor'',
        issues = [[(''invalid'', JInt 2)]], impact = 1 / 5\<rparr>]"

definition ex_enriched :: "CheckResult list" where
  "ex_enriched =
     [\<lparr>name = ''Duplicate Rows'', severity = ''major'',
        issues = [[(''duplicates'', JInt 1),
                   (''row_indices'', JList [JInt 0, JInt 1]),
                   (''sample_rows'', JList [JDict [(''amount'', JNum 5)], JDict [(''amount'', JNum 5)]]),
                   (''columns'', JList [JStr ''amount''])]],
        impact = 1 / 10\<rparr>,
      \<lparr>name = ''IQR Outliers: amount'', severity = ''major'',
        issues = [[(''count'', JInt 1), (''lo'', JNum 0), (''hi'', JNum 10),
                   (''column'', JStr ''amount''),
                   (''row_indices'', JList [JInt 2]),
                   (''sample_values'', JList [JDict [(''index'', JInt 2), (''value'', JNum 900)]]),
                   (''explain'', JStr ''IQR rule on amount'')]],
        impact = 1 / 10\<rparr>,
      \<lparr>name = ''Invalid Dates: day'', severity = ''minor'',
        issues = [[(''invalid'', JInt 2)]], impact = 1 / 5\<rparr>]"

text \<open>The invariant of an emitted finding: some issue record, and an impact in [0,1].\<close>

definition finding_ok :: "CheckResult \<Rightarrow> bool" where
  "finding_ok r = (issues r \<noteq> [] \<and> 0 \<le> impact r \<and> impact r \<le> 1)"

text \<open>What it means, rule by rule, that a dataset gives a check nothing to detect: the
  dataset has exactly the baseline's columns and every declared dtype that applies agrees;
  no cell is missing and no row repeats; no numeric column of ten values or more has a
  value outside its bounds; no value of a text column is rarer than 1%; no text column
  that looks like emails or postcodes fails the pattern in more than 30% of its values; no
  date column has a value that does not coerce and no shipment precedes its order.\<close>

definition schema_matches :: "dataframe \<Rightarrow> baseline \<Rightarrow> bool" where
  "schema_matches df bl =
     (set (case b_columns bl of None \<Rightarrow> [] | Some cs \<Rightarrow> cs) = set (column_names df)
      \<and> list_all (\<lambda>(c, e). case get_column df c of None \<Rightarrow> True | Some col \<Rightarrow> dtype col = e)
            (case b_dtypes bl of None \<Rightarrow> [] | Some d \<Rightarrow> d))"

definition no_missing_or_duplicate_rows :: "dataframe \<Rightarrow> bool" where
  "no_missing_or_duplicate_rows df =
     (list_all (\<lambda>c. NA \<notin> set (cells c)) (columns df) \<and> distinct (all_rows df))"

definition no_outliers :: "pandas \<Rightarrow> dataframe \<Rightarrow> bool" where
  "no_outliers L df =
     list_all (\<lambda>c. is_numeric_dtype L c \<longrightarrow> 10 \<le> length (numeric_values L c) \<longrightarrow>
                 (case iqr_bounds (numeric_values L c) of
                    (q1, q3, iqr, lo, hi) \<Rightarrow> list_all (\<lambda>x. lo \<le> x \<and> x \<le> hi) (numeric_values L c)))
       (columns df)"

definition no_rare_categories :: "pandas \<Rightarrow> dataframe \<Rightarrow> bool" where
  "no_rare_categories L df =
     list_all (\<lambda>c. is_string_dtype L c \<or> dtype c = ''category'' \<longrightarrow>
                 (let s = map (astype_str L) (cells c)
                  in list_all (\<lambda>v. 0.01 \<le> real (count_list s v) / real (length s)) s))
       (columns df)"

definition no_semantic_violations :: "pandas \<Rightarrow> dataframe \<Rightarrow> bool" where
  "no_semantic_violations L df =
     list_all (\<lambda>c. is_string_dtype L c \<longrightarrow>
                 (let sample = map (astype_str L) (filter (\<lambda>v. v \<noteq> NA) (cells c))
                  in (0.5 < mean_true (map (\<lambda>x. CHR ''@'' \<in> set x) sample)
                        \<longrightarrow> mean_true (map (\<lambda>x. \<not> match_email L x) sample) \<le> 0.3)
                   \<and> (0.5 < mean_true (map (contains_letter_digit L) sample)
                        \<longrightarrow> mean_true (map (\<lambda>x. \<not> match_uk_postcode L x) sample) \<le> 0.3)))
       (columns df)"

definition no_date_problems :: "pandas \<Rightarrow> dataframe \<Rightarrow> bool" where
  "no_date_problems L df =
     (list_all (\<lambda>c. is_date_column L c \<longrightarrow>
                  (case to_datetime L c of None \<Rightarrow> True | Some s \<Rightarrow> None \<notin> set s))
        (columns df)
      \<and> (\<forall>c1\<in>set (columns df). \<forall>c2\<in>set (columns df).
            cname c1 = ''order_date'' \<longrightarrow> cname c2 = ''ship_date'' \<longrightarrow>
            (case (to_datetime L c1, to_datetime L c2) of
               (Some ordered, Some ship) \<Rightarrow> ship_before_order ship ordered = 0
             | _ \<Rightarrow> True)))"

text \<open>A baseline that the three orders satisfy.\<close>

definition ex_baseline :: baseline where
  "ex_baseline = \<lparr>b_columns = Some [''id'', ''amount''], b_dtypes = Some [(''id'', ''int64'')],
                   b_primary_key = Some [''amount'']\<rparr>"

text \<open>A finding other than the duplicate-rows finding, and one the outlier pass of the
  enrichment cannot fail on: if its name starts with "IQR Outliers", its issue record holds
  numeric bounds. Every finding of the checks but the duplicate-rows finding is of this
  kind.\<close>

definition enrichable :: "CheckResult \<Rightarrow> bool" where
  "enrichable r =
     (name r \<noteq> ''Duplicate Rows''
      \<and> (startswith (name r) ''IQR Outliers'' \<longrightarrow>
           (\<exists>cnt lo hi. issues r = [[(''count'', cnt), (''lo'', JNum lo), (''hi'', JNum hi)]])))"

section \<open>Properties of the scorer\<close>

lemma penalty_loop_sum:
  "penalty_loop p rs = p + (\<Sum>r\<leftarrow>rs. severity_weight (severity r) * impact r * 10)"
  by (induction rs arbitrary: p) simp_all

lemma severity_weight_pos: "0 < severity_weight s"
  by (simp add: severity_weight_def SEVERITY_WEIGHTS_def)


lemma round_half_even_lower: "\<lfloor>x\<rfloor> \<le> round_half_even x"
  by (simp add: round_half_even_def Let_def)

lemma round_half_even_upper: "round_half_even x \<le> \<lfloor>x\<rfloor> + 1"
  by (simp add: round_half_even_def Let_def)

lemma round_half_even_mono:
  assumes "x \<le> y"
  shows "round_half_even x \<le> round_half_even y"
proof (cases "\<lfloor>x\<rfloor> = \<lfloor>y\<rfloor>")
  case True
  with assms have "x - of_int \<lfloor>x\<rfloor> \<le> y - of_int \<lfloor>y\<rfloor>" by simp
  with True show ?thesis
    by (auto simp: round_half_even_def Let_def)
next
  case False
  from assms have "\<lfloor>x\<rfloor> \<le> \<lfloor>y\<rfloor>" by (rule floor_mono)
  with False have "\<lfloor>x\<rfloor> + 1 \<le> \<lfloor>y\<rfloor>" by simp
  with round_half_even_upper [of x] round_half_even_lower [of y] show ?thesis
    by linarith
qed

lemma py_round_mono: "x \<le> y \<Longrightarrow> py_round x n \<le> py_round y n"
proof -
  assume xy: "x \<le> y"
  have "x * 10 ^ n \<le> y * 10 ^ n" using xy by (simp add: mult_right_mono)
  then have "round_half_even (x * 10 ^ n) \<le> round_half_even (y * 10 ^ n)"
    by (rule round_half_even_mono)
  then have "(of_int (round_half_even (x * 10 ^ n)) :: real) \<le> of_int (round_half_even (y * 10 ^ n))"
    by simp
  then show ?thesis
    unfolding py_round_def by (simp add: divide_right_mono)
qed



text \<open>At a tie both neighbours are roundings: nine invalid dates in 4000 rows cost 0.45
  points, and 99.5 (what the program prints) and 99.6 are both 99.55 rounded to one
  decimal.\<close>

lemma rounded_to_tie:
  "rounded_to 1 (9955 / 100) (995 / 10) \<and> rounded_to 1 (9955 / 100) (996 / 10)"
  by (simp add: rounded_to_def)



text \<open>
  Claim C5. The score is antitone in the finding set: appending a further finding (its
  impact non-negative, as for every Finding of the data model) to any finding list never
  increases the score, and the empty finding list scores exactly 100.0.
\<close>

theorem C5_score_antitone:
  assumes "0 \<le> impact r"
  shows "compute_score (results @ [r]) \<le> compute_score results \<and> compute_score [] = 100"
proof -
  let ?g = "\<lambda>r. severity_weight (severity r) * impact r * 10"
  have "0 \<le> ?g r"
    using assms severity_weight_pos [of "severity r"] by simp
  then have "max 0 (100 - (sum_list (map ?g results) + ?g r)) \<le> max 0 (100 - sum_list (map ?g results))"
    by linarith
  then have "compute_score (results @ [r]) \<le> compute_score results"
    by (simp add: compute_score_def penalty_loop_sum Let_def py_round_mono)
  moreover have "compute_score [] = 100"
    by (simp add: compute_score_def py_round_def round_half_even_def)
  ultimately show ?thesis by simp
qed

theorem C5_score_antitone_witness:
  "0 \<le> impact \<lparr>name = ''Invalid Dates: d'', severity = ''minor'',
                 issues = [[(''invalid'', JInt 3)]], impact = 3 / 10\<rparr>
   \<and> compute_score ([\<lparr>name = ''Duplicate Rows'', severity = ''major'',
                      issues = [[(''duplicates'', JInt 1)]], impact = 1 / 10\<rparr>]
                    @ [\<lparr>name = ''Invalid Dates: d'', severity = ''minor'',
                        issues = [[(''invalid'', JInt 3)]], impact = 3 / 10\<rparr>])
       \<le> compute_score [\<lparr>name = ''Duplicate Rows'', severity = ''major'',
                      issues = [[(''duplicates'', JInt 1)]], impact = 1 / 10\<rparr>]
   \<and> compute_score [\<lparr>name = ''Duplicate Rows'', severity = ''major'',
                      issues = [[(''duplicates'', JInt 1)]], impact = 1 / 10\<rparr>] = 98"
  using C5_score_antitone [of "\<lparr>name = ''Invalid Dates: d'', severity = ''minor'',
                 issues = [[(''invalid'', JInt 3)]], impact = 3 / 10\<rparr>"
      "[\<lparr>name = ''Duplicate Rows'', severity = ''major'',
                      issues = [[(''duplicates'', JInt 1)]], impact = 1 / 10\<rparr>]"]
  by (simp add: compute_score_def severity_weight_def SEVERITY_WEIGHTS_def
      py_round_def round_half_even_def)

text \<open>
  Claim C6, as stated: at equal impact a critical finding contributes three times the
  penalty of a major one. The weights are 3 and 2, so at impact 1 the contributions are
  30 and 20 (scores 70.0 and 80.0): the claim fails.
\<close>

theorem C6_three_times_major_counterexample:
  "penalty_loop 0 [\<lparr>name = ''Primary Key Uniqueness'', severity = ''critical'',
                     issues = [[(''duplicates'', JInt 1)]], impact = 1\<rparr>] = 30
   \<and> penalty_loop 0 [\<lparr>name = ''Duplicate Rows'', severity = ''major'',
                     issues = [[(''duplicates'', JInt 1)]], impact = 1\<rparr>] = 20
   \<and> penalty_loop 0 [\<lparr>name = ''Primary Key Uniqueness'', severity = ''critical'',
                     issues = [[(''duplicates'', JInt 1)]], impact = 1\<rparr>]
       \<noteq> 3 * penalty_loop 0 [\<lparr>name = ''Duplicate Rows'', severity = ''major'',
                     issues = [[(''duplicates'', JInt 1)]], impact = 1\<rparr>]
   \<and> compute_score [\<lparr>name = ''Primary Key Uniqueness'', severity = ''critical'',
                     issues = [[(''duplicates'', JInt 1)]], impact = 1\<rparr>] = 70
   \<and> compute_score [\<lparr>name = ''Duplicate Rows'', severity = ''major'',
                     issues = [[(''duplicates'', JInt 1)]], impact = 1\<rparr>] = 80"
  by (simp add: compute_score_def severity_weight_def SEVERITY_WEIGHTS_def
      py_round_def round_half_even_def)

text \<open>
  Claim C6, amended. At equal impact, what a critical finding adds to the running penalty
  is one and a half times what a major finding adds (weights 3 and 2), and three times
  what a minor finding adds (weights 3 and 1).
\<close>

theorem C6_critical_penalty_ratio:
  assumes "severity c = ''critical''" and "severity m = ''major''" and "severity n = ''minor''"
    and "impact m = impact c" and "impact n = impact c"
  shows "penalty_loop p [c] - p = 3 / 2 * (penalty_loop p [m] - p)
       \<and> penalty_loop p [c] - p = 3 * (penalty_loop p [n] - p)"
  using assms by (simp add: severity_weight_def SEVERITY_WEIGHTS_def)

theorem C6_critical_penalty_ratio_witness:
  "severity \<lparr>name = ''Primary Key Uniqueness'', severity = ''critical'',
              issues = [[(''duplicates'', JInt 1)]], impact = 1 / 5\<rparr> = ''critical''
   \<and> severity \<lparr>name = ''Duplicate Rows'', severity = ''major'',
              issues = [[(''duplicates'', JInt 2)]], impact = 1 / 5\<rparr> = ''major''
   \<and> severity \<lparr>name = ''Invalid Dates: d'', severity = ''minor'',
              issues = [[(''invalid'', JInt 2)]], impact = 1 / 5\<rparr> = ''minor''
   \<and> penalty_loop 0 [\<lparr>name = ''Primary Key Uniqueness'', severity = ''critical'',
              issues = [[(''duplicates'', JInt 1)]], impact = 1 / 5\<rparr>] - 0
       = 3 / 2 * (penalty_loop 0 [\<lparr>name = ''Duplicate Rows'', severity = ''major'',
              issues = [[(''duplicates'', JInt 2)]], impact = 1 / 5\<rparr>] - 0)
   \<and> penalty_loop 0 [\<lparr>name = ''Primary Key Uniqueness'', severity = ''critical'',
              issues = [[(''duplicates'', JInt 1)]], impact = 1 / 5\<rparr>] - 0 = 6"
  using C6_critical_penalty_ratio [of
      "\<lparr>name = ''Primary Key Uniqueness'', severity = ''critical'',
              issues = [[(''duplicates'', JInt 1)]], impact = 1 / 5\<rparr>"
      "\<lparr>name = ''Duplicate Rows'', severity = ''major'',
              issues = [[(''duplicates'', JInt 2)]], impact = 1 / 5\<rparr>"
      "\<lparr>name = ''Invalid Dates: d'', severity = ''minor'',
              issues = [[(''invalid'', JInt 2)]], impact = 1 / 5\<rparr>" 0]
  by (simp add: severity_weight_def SEVERITY_WEIGHTS_def)

section \<open>Duplicated rows and the primary-key check\<close>

lemma duplicated_scan_snoc:
  "duplicated_scan seen (rs @ [r]) = duplicated_scan seen rs @ [r \<in> set seen \<union> set rs]"
  by (induction rs arbitrary: seen) auto

lemma count_true_duplicated_snoc:
  "count_true (duplicated (rs @ [r])) = count_true (duplicated rs) + (if r \<in> set rs then 1 else 0)"
  by (simp add: duplicated_def duplicated_scan_snoc count_true_def)

lemma length_duplicated_scan: "length (duplicated_scan seen rs) = length rs"
  by (induction rs arbitrary: seen) auto

lemma rows_equal_to_earlier_snoc:
  "rows_equal_to_earlier (rs @ [r]) =
     rows_equal_to_earlier rs @ (if r \<in> set rs then [length rs] else [])"
proof -
  have a: "filter (\<lambda>i. list_ex (\<lambda>j. (rs @ [r]) ! j = (rs @ [r]) ! i) [0..<i]) [0..<length rs]
         = filter (\<lambda>i. list_ex (\<lambda>j. rs ! j = rs ! i) [0..<i]) [0..<length rs]"
    by (rule filter_cong) (auto simp: list_ex_iff nth_append)
  have b: "list_ex (\<lambda>j. (rs @ [r]) ! j = r) [0..<length rs] \<longleftrightarrow> r \<in> set rs"
    by (auto simp: list_ex_iff nth_append in_set_conv_nth)
  show ?thesis
    unfolding rows_equal_to_earlier_def using a b by simp
qed

lemma count_true_duplicated:
  "count_true (duplicated keys) = length (rows_equal_to_earlier keys)"
proof (induction keys rule: rev_induct)
  case Nil
  show ?case by (simp add: duplicated_def count_true_def rows_equal_to_earlier_def)
next
  case (snoc r rs)
  then show ?case
    by (simp add: count_true_duplicated_snoc rows_equal_to_earlier_snoc)
qed

lemma count_list_gt1_iff:
  assumes "i < length rows"
  shows "1 < count_list rows (rows ! i) \<longleftrightarrow> (\<exists>j<length rows. j \<noteq> i \<and> rows ! j = rows ! i)"
proof -
  let ?S = "{k. k < length rows \<and> rows ! i = rows ! k}"
  have fin: "finite ?S" by simp
  have iS: "i \<in> ?S" using assms by simp
  have cnt: "count_list rows (rows ! i) = card ?S"
    by (simp add: count_list_eq_length_filter length_filter_conv_card)
  show ?thesis
  proof
    assume "1 < count_list rows (rows ! i)"
    then have "1 < card ?S" by (simp add: cnt)
    then have "card (?S - {i}) \<noteq> 0" using iS fin by (simp add: card_Diff_singleton)
    then have "?S - {i} \<noteq> {}" by auto
    then obtain j where "j \<in> ?S" "j \<noteq> i" by blast
    then show "\<exists>j<length rows. j \<noteq> i \<and> rows ! j = rows ! i" by auto
  next
    assume "\<exists>j<length rows. j \<noteq> i \<and> rows ! j = rows ! i"
    then obtain j where j: "j < length rows" "j \<noteq> i" "rows ! j = rows ! i" by blast
    then have "{i, j} \<subseteq> ?S" using assms by simp
    then have "card {i, j} \<le> card ?S" using fin by (rule card_mono [rotated])
    with j show "1 < count_list rows (rows ! i)" by (simp add: cnt)
  qed
qed

lemma mask_positions_keep_false:
  "mask_positions (duplicated_keep_false rows) = rows_equal_to_other rows"
  unfolding mask_positions_def duplicated_keep_false_def rows_equal_to_other_def
  by (auto intro!: filter_cong simp: count_list_gt1_iff [simplified] list_ex_iff Bex_def)

lemma get_column_Some:
  assumes "k \<in> set (column_names df)"
  shows "\<exists>c. get_column df k = Some c \<and> cname c = k"
proof (cases "get_column df k")
  case None
  with assms show ?thesis
    by (auto simp: get_column_def column_names_def find_None_iff)
next
  case (Some c)
  then show ?thesis by (auto simp: get_column_def find_Some_iff)
qed

lemma select_columns_present:
  assumes "set ks \<subseteq> set (column_names df)"
  shows "select_columns df ks = Inr (map (\<lambda>k. the (get_column df k)) ks)"
  using assms
proof (induction ks)
  case Nil
  show ?case by simp
next
  case (Cons k ks)
  then obtain c where "get_column df k = Some c"
    using get_column_Some [of k df] by auto
  with Cons show ?case by simp
qed

lemma subset_rows_present:
  assumes "set pk \<subseteq> set (column_names df)"
  shows "subset_rows df pk = Inr (key_values df pk)"
proof -
  have "\<And>i. map (\<lambda>c. cells c ! i) (map (\<lambda>k. the (get_column df k)) pk)
          = map (\<lambda>k. case get_column df k of Some c \<Rightarrow> cells c ! i | None \<Rightarrow> NA) pk"
    using assms get_column_Some [of _ df] by (fastforce simp: subset_iff)
  then show ?thesis
    by (simp add: subset_rows_def select_columns_present [OF assms] key_values_def)
qed

lemma key_rows_present:
  assumes "set pk \<subseteq> set (column_names df)" and "pk \<noteq> []"
  shows "key_rows df pk = Inr (key_values df pk)"
proof (cases "df_empty df")
  case False
  then show ?thesis by (simp add: key_rows_def subset_rows_present [OF assms(1)])
next
  case True
  from assms have "column_names df \<noteq> []" by (cases pk) auto
  then have "columns df \<noteq> []" by (simp add: column_names_def)
  with True have "nrows df = 0" by (simp add: df_empty_def)
  with True show ?thesis by (simp add: key_rows_def key_values_def)
qed

text \<open>
  Claim C3, amended. For every dataset and every non-empty primary-key list whose labels
  are all columns of the dataset, the reported duplicates count is the number of rows whose
  key values equal those of an earlier row (a key shared by k rows adds k - 1). When the
  count is positive the check emits exactly one finding, named "Primary Key Uniqueness",
  of severity critical and impact normalize(count, max(10, 2% of the row count)), whose
  examples are the first five rows that share their key with another row; otherwise it
  emits nothing.
\<close>

theorem C3_primary_key_counts_later_rows:
  assumes "wf_df df" and "pk \<noteq> []" and "set pk \<subseteq> set (column_names df)"
  shows "check_primary_key df pk =
     Inr (let keys = key_values df pk;
              cnt = length (rows_equal_to_earlier keys)
          in if 0 < cnt
             then [\<lparr>name = ''Primary Key Uniqueness'', severity = ''critical'',
                    issues = [[(''duplicates'', JInt (int cnt)),
                               (''examples'',
                                JList (map JDict (take 5 (map (\<lambda>i. row_record pk (keys ! i))
                                                          (rows_equal_to_other keys)))))]],
                    impact = spec_normalize (real cnt) (max 10 (2 / 100 * real (nrows df)))\<rparr>]
             else [])"
  using assms(2)
  by (simp add: check_primary_key_def key_rows_present [OF assms(3) assms(2)]
      count_true_duplicated mask_positions_keep_false Let_def
      spec_normalize_def clamp_def norm_impact_def mult.commute)

theorem C3_primary_key_counts_later_rows_witness:
  "wf_df ex_orders \<and> [''id''] \<noteq> ([] :: string list)
   \<and> set [''id''] \<subseteq> set (column_names ex_orders)
   \<and> check_primary_key ex_orders [''id''] =
     Inr [\<lparr>name = ''Primary Key Uniqueness'', severity = ''critical'',
            issues = [[(''duplicates'', JInt 1),
                       (''examples'', JList [JDict [(''id'', JNum 1)], JDict [(''id'', JNum 1)]])]],
            impact = 1 / 10\<rparr>]"
  using C3_primary_key_counts_later_rows [of ex_orders "[''id'']"]
  by (simp add: wf_df_def column_names_def get_column_def
      ex_orders_def row_record_def cell_json_def spec_normalize_def clamp_def
      rows_equal_to_other_def rows_equal_to_earlier_def key_values_def
      upt_rec [of _ "numeral _"] upt_rec [of 0 "Suc _"] Let_def)

text \<open>
  Claim C3, as stated: the count is the number of rows whose key equals that of at least
  one other row. In the three orders two rows share the id 1: two rows equal another row,
  and the check reports one duplicate. With a key label that is no column of the dataset
  the check returns no finding list at all (pandas raises KeyError); the amended claim
  speaks of key lists whose labels are columns and leaves that case open.
\<close>

theorem C3_counts_all_rows_of_a_group_counterexample:
  "check_primary_key ex_orders [''id''] =
     Inr [\<lparr>name = ''Primary Key Uniqueness'', severity = ''critical'',
            issues = [[(''duplicates'', JInt 1),
                       (''examples'', JList [JDict [(''id'', JNum 1)], JDict [(''id'', JNum 1)]])]],
            impact = 1 / 10\<rparr>]
   \<and> length (rows_equal_to_other (key_values ex_orders [''id''])) = 2
   \<and> check_primary_key ex_orders [''customer''] = Inl (KeyError ''customer'')"
  by (simp add: check_primary_key_def key_rows_def df_empty_def subset_rows_def get_column_def
      ex_orders_def duplicated_def count_true_def duplicated_keep_false_def mask_positions_def
      row_record_def cell_json_def norm_impact_def rows_equal_to_other_def key_values_def
      upt_rec [of _ "numeral _"] upt_rec [of 0 "Suc _"] Let_def)

section \<open>Optional inputs\<close>

text \<open>
  Claim C8. For every dataset, the schema check without a baseline (None, or the empty
  object) returns the empty list, the primary-key check with an empty key list returns the
  empty list and no error, and the whole run without a baseline returns the findings of
  the five baseline-independent checks, without an error.
\<close>

theorem C8_missing_optional_inputs:
  "check_schema df None = []
   \<and> check_schema df (Some \<lparr>b_columns = None, b_dtypes = None, b_primary_key = None\<rparr>) = []
   \<and> check_primary_key df [] = Inr []
   \<and> run_checks L df None =
       Inr (check_missing_duplicates_types df @ check_outliers_iqr L df
            @ check_rare_categories L df @ check_semantic_regex L df @ check_dates L df)"
  by (simp add: check_schema_def falsy_baseline_def check_primary_key_def run_checks_def)

section \<open>The worked example of the interquartile-range rule\<close>

lemma sort_iqr_sample: "sort iqr_sample = iqr_sample"
  by (simp add: iqr_sample_def)

lemma percentile_iqr_sample:
  "percentile iqr_sample 25 = 13 / 4" "percentile iqr_sample 75 = 31 / 4"
  by (simp_all add: percentile_def sort_iqr_sample Let_def, simp_all add: iqr_sample_def)

lemma iqr_bounds_iqr_sample: "iqr_bounds iqr_sample = (13 / 4, 31 / 4, 9 / 2, - (7 / 2), 29 / 2)"
  by (simp add: iqr_bounds_def percentile_iqr_sample Let_def)

lemma outliers_iqr_sample: "outliers iqr_sample (- (7 / 2)) (29 / 2) = [100]"
  by (simp add: outliers_def iqr_sample_def)

text \<open>
  Claim C4. On the numeric column [1,2,3,4,5,6,7,8,9,100] the check computes Q1 = 3.25,
  Q3 = 7.75, IQR = 4.5, lo = -3.5 and hi = 14.5, the only value outside the bounds is 100,
  and the check emits one finding with count 1 and these bounds.
\<close>

theorem C4_iqr_worked_example:
  assumes "is_numeric_dtype L \<lparr>cname = ''x'', dtype = ''int64'', cells = map Num iqr_sample\<rparr>"
    and "\<And>x. to_numeric L (Num x) = Some x"
  shows "iqr_bounds iqr_sample = (3.25, 7.75, 4.5, - 3.5, 14.5)
       \<and> outliers iqr_sample (- 3.5) 14.5 = [100]
       \<and> check_outliers_iqr L iqr_frame =
           [\<lparr>name = ''IQR Outliers: x'', severity = ''major'',
              issues = [[(''count'', JInt 1), (''lo'', JNum (- 3.5)), (''hi'', JNum 14.5)]],
              impact = 0.1\<rparr>]"
proof -
  have nv: "numeric_values L \<lparr>cname = ''x'', dtype = ''int64'', cells = map Num iqr_sample\<rparr> = iqr_sample"
    by (simp add: numeric_values_def List.map_filter_def assms(2) comp_def)
  have len: "length iqr_sample = 10" by (simp add: iqr_sample_def)
  have "check_outliers_iqr L iqr_frame =
           [\<lparr>name = ''IQR Outliers: x'', severity = ''major'',
              issues = [[(''count'', JInt 1), (''lo'', JNum (- 7 / 2)), (''hi'', JNum (29 / 2))]],
              impact = 1 / 10\<rparr>]"
    using assms(1)
    by (simp add: check_outliers_iqr_def iqr_frame_def outliers_of_column_def nv len
        iqr_bounds_iqr_sample outliers_iqr_sample norm_impact_def)
  then show ?thesis
    by (simp add: iqr_bounds_iqr_sample outliers_iqr_sample)
qed

theorem C4_iqr_worked_example_witness:
  "is_numeric_dtype sample_pandas \<lparr>cname = ''x'', dtype = ''int64'', cells = map Num iqr_sample\<rparr>
   \<and> to_numeric sample_pandas (Num 100) = Some 100
   \<and> check_outliers_iqr sample_pandas iqr_frame =
           [\<lparr>name = ''IQR Outliers: x'', severity = ''major'',
              issues = [[(''count'', JInt 1), (''lo'', JNum (- 3.5)), (''hi'', JNum 14.5)]],
              impact = 0.1\<rparr>]"
  using C4_iqr_worked_example [of sample_pandas]
  by (simp add: sample_pandas_def)

section \<open>The date check\<close>

lemma filter_concat_single:
  assumes "distinct (map fst ps)" and "(k, v) \<in> set ps"
    and "\<And>p. p \<in> set ps \<Longrightarrow> fst p \<noteq> k \<Longrightarrow> filter P (f p) = []"
  shows "filter P (concat (map f ps)) = filter P (f (k, v))"
  using assms
proof (induction ps)
  case Nil
  then show ?case by simp
next
  case (Cons p ps)
  show ?case
  proof (cases "p = (k, v)")
    case True
    with Cons.prems(1) have "\<forall>q\<in>set ps. fst q \<noteq> k" by (auto simp: image_iff)
    with Cons.prems(3) have "\<forall>q\<in>set ps. filter P (f q) = []" by simp
    then have "filter P (concat (map f ps)) = []"
      by (induction ps) auto
    with True show ?thesis by simp
  next
    case False
    with Cons.prems(2) have in_ps: "(k, v) \<in> set ps" by simp
    with Cons.prems(1) have "fst p \<noteq> k" by (auto simp: image_iff)
    with Cons.prems(3) have "filter P (f p) = []" by simp
    moreover have "filter P (concat (map f ps)) = filter P (f (k, v))"
      using Cons.IH Cons.prems(1,3) in_ps by simp
    ultimately show ?thesis by simp
  qed
qed

lemma filter_concat_none:
  assumes "\<And>p. p \<in> set ps \<Longrightarrow> filter P (f p) = []"
  shows "filter P (concat (map f ps)) = []"
  using assms by (induction ps) auto

lemma parse_dates_fst: "fst ` set (parse_dates L cs) \<subseteq> cname ` set cs"
  by (induction cs) (auto split: option.splits)

lemma parse_dates_distinct:
  "distinct (map cname cs) \<Longrightarrow> distinct (map fst (parse_dates L cs))"
proof (induction cs)
  case Nil
  show ?case by simp
next
  case (Cons c cs)
  then show ?case
    using parse_dates_fst [of L cs] by (auto split: option.splits)
qed

lemma parse_dates_member:
  "c \<in> set cs \<Longrightarrow> to_datetime L c = Some s \<Longrightarrow> (cname c, s) \<in> set (parse_dates L cs)"
  by (induction cs) (auto split: option.splits)

lemma parse_dates_skipped:
  "distinct (map cname cs) \<Longrightarrow> c \<in> set cs \<Longrightarrow> to_datetime L c = None
   \<Longrightarrow> cname c \<notin> fst ` set (parse_dates L cs)"
proof (induction cs)
  case Nil
  then show ?case by simp
next
  case (Cons d cs)
  from Cons.prems(1) have nd: "cname d \<notin> cname ` set cs" and dist: "distinct (map cname cs)"
    by auto
  show ?case
  proof (cases "c = d")
    case True
    with Cons.prems(3) have "parse_dates L (d # cs) = parse_dates L cs" by simp
    moreover have "cname d \<notin> fst ` set (parse_dates L cs)"
      using nd parse_dates_fst [of L cs] by blast
    ultimately show ?thesis using True by simp
  next
    case False
    with Cons.prems(2) have mem: "c \<in> set cs" by simp
    then have ne: "cname d \<noteq> cname c" using nd by blast
    have "cname c \<notin> fst ` set (parse_dates L cs)"
      using dist mem Cons.prems(3) by (rule Cons.IH)
    with ne show ?thesis by (cases "to_datetime L d") auto
  qed
qed

lemma invalid_dates_of_other:
  "fst p \<noteq> k \<Longrightarrow> filter (\<lambda>r. name r = ''Invalid Dates: '' @ k) (invalid_dates_of df p) = []"
  by (simp add: invalid_dates_of_def Let_def)

lemma check_dates_filter:
  "filter (\<lambda>r. name r = ''Invalid Dates: '' @ k) (check_dates L df)
   = filter (\<lambda>r. name r = ''Invalid Dates: '' @ k)
       (concat (map (invalid_dates_of df) (parse_dates L (filter (is_date_column L) (columns df)))))"
  by (auto simp: check_dates_def Let_def temporal_rule_name_def split: option.splits)

lemma invalid_dates_of_own:
  "filter (\<lambda>r. name r = ''Invalid Dates: '' @ k) (invalid_dates_of df (k, s)) =
     (let invalid = length (filter (\<lambda>v. v = None) s) in
      if 0 < invalid
      then [\<lparr>name = ''Invalid Dates: '' @ k, severity = ''minor'',
             issues = [[(''invalid'', JInt (int invalid))]],
             impact = spec_normalize (real invalid) (max 10 (5 / 100 * real (nrows df)))\<rparr>]
      else [])"
  by (simp add: invalid_dates_of_def count_nat_def Let_def spec_normalize_def clamp_def
      norm_impact_def)

text \<open>
  Claim C7. For every candidate date column (its name contains "date" in any case, or its
  dtype is temporal) of a dataset, the findings of the date check named
  "Invalid Dates: <column>" are: exactly one, of severity minor, carrying the number of
  values the coercion failed on as its invalid count and of impact
  normalize(invalid, max(10, 5% of the row count)), when that number is positive; none when
  it is zero. (When the coercion call itself raises, the check skips the column and there
  is no count and no finding.)
\<close>

theorem C7_invalid_dates:
  assumes "wf_df df" and "c \<in> set (columns df)" and "is_date_column L c"
  shows "filter (\<lambda>r. name r = ''Invalid Dates: '' @ cname c) (check_dates L df) =
    (case to_datetime L c of
       None \<Rightarrow> []
     | Some s \<Rightarrow>
         let invalid = length (filter (\<lambda>v. v = None) s) in
         if 0 < invalid
         then [\<lparr>name = ''Invalid Dates: '' @ cname c, severity = ''minor'',
                issues = [[(''invalid'', JInt (int invalid))]],
                impact = spec_normalize (real invalid) (max 10 (5 / 100 * real (nrows df)))\<rparr>]
         else [])"
proof -
  let ?cs = "filter (is_date_column L) (columns df)"
  let ?P = "\<lambda>r. name r = ''Invalid Dates: '' @ cname c"
  from assms(1) have "distinct (map cname (columns df))" by (simp add: wf_df_def)
  then have dist: "distinct (map cname ?cs)" by (rule distinct_map_filter)
  from assms(2,3) have mem: "c \<in> set ?cs" by simp
  have eq: "filter ?P (check_dates L df)
          = filter ?P (concat (map (invalid_dates_of df) (parse_dates L ?cs)))"
    by (rule check_dates_filter)
  show ?thesis
  proof (cases "to_datetime L c")
    case None
    have "cname c \<notin> fst ` set (parse_dates L ?cs)"
      using dist mem None by (rule parse_dates_skipped)
    have notin: "cname c \<notin> fst ` set (parse_dates L ?cs)" by fact
    have "fst p \<noteq> cname c" if "p \<in> set (parse_dates L ?cs)" for p
    proof
      assume "fst p = cname c"
      moreover from that have "fst p \<in> fst ` set (parse_dates L ?cs)" by (rule imageI)
      ultimately show False using notin by simp
    qed
    then have "\<And>p. p \<in> set (parse_dates L ?cs) \<Longrightarrow> filter ?P (invalid_dates_of df p) = []"
      by (rule invalid_dates_of_other)
    then have "filter ?P (concat (map (invalid_dates_of df) (parse_dates L ?cs))) = []"
      by (rule filter_concat_none)
    then show ?thesis
      by (simp only: eq None option.case)
  next
    case (Some s)
    have "filter ?P (concat (map (invalid_dates_of df) (parse_dates L ?cs)))
        = filter ?P (invalid_dates_of df (cname c, s))"
    proof (rule filter_concat_single)
      show "distinct (map fst (parse_dates L ?cs))" using dist by (rule parse_dates_distinct)
      show "(cname c, s) \<in> set (parse_dates L ?cs)" using mem Some by (rule parse_dates_member)
      show "\<And>p. p \<in> set (parse_dates L ?cs) \<Longrightarrow> fst p \<noteq> cname c
            \<Longrightarrow> filter ?P (invalid_dates_of df p) = []"
        by (rule invalid_dates_of_other)
    qed
    then show ?thesis
      by (simp only: eq Some option.case invalid_dates_of_own)
  qed
qed

theorem C7_invalid_dates_witness:
  "wf_df ex_shipments
   \<and> \<lparr>cname = ''Ship_Date'', dtype = ''object'', cells = [Stamp 10, Str ''n/a'', NA]\<rparr>
       \<in> set (columns ex_shipments)
   \<and> is_date_column sample_pandas
       \<lparr>cname = ''Ship_Date'', dtype = ''object'', cells = [Stamp 10, Str ''n/a'', NA]\<rparr>
   \<and> filter (\<lambda>r. name r = ''Invalid Dates: Ship_Date'') (check_dates sample_pandas ex_shipments) =
       [\<lparr>name = ''Invalid Dates: Ship_Date'', severity = ''minor'',
          issues = [[(''invalid'', JInt 2)]], impact = 1 / 5\<rparr>]"
  using C7_invalid_dates [of ex_shipments
      "\<lparr>cname = ''Ship_Date'', dtype = ''object'', cells = [Stamp 10, Str ''n/a'', NA]\<rparr>"
      sample_pandas]
  by (simp add: wf_df_def ex_shipments_def is_date_column_def lower_def lower_char_def
      sample_pandas_def spec_normalize_def clamp_def)

section \<open>The enrichment changes nothing but the evidence keys\<close>

lemma filter_dict_set:
  "k \<in> set ks \<Longrightarrow>
     filter (\<lambda>p. fst p \<notin> set ks) (dict_set d k v) = filter (\<lambda>p. fst p \<notin> set ks) d"
  by (induction d) auto

lemma adds_only_refl: "adds_only ks xs xs"
  by (simp add: adds_only_def)

lemma add_duplicate_evidence_frame:
  "filter (\<lambda>p. fst p \<notin> set duplicate_keys) (add_duplicate_evidence df idx d)
   = filter (\<lambda>p. fst p \<notin> set duplicate_keys) d"
proof -
  have "''row_indices'' \<in> set duplicate_keys" "''sample_rows'' \<in> set duplicate_keys"
    "''columns'' \<in> set duplicate_keys"
    by (simp_all add: duplicate_keys_def)
  then show ?thesis
    unfolding add_duplicate_evidence_def by (simp only: filter_dict_set)
qed

lemma add_outlier_evidence_frame:
  "filter (\<lambda>p. fst p \<notin> set outlier_keys) (add_outlier_evidence L c lo hi d)
   = filter (\<lambda>p. fst p \<notin> set outlier_keys) d"
proof -
  have "''column'' \<in> set outlier_keys" "''row_indices'' \<in> set outlier_keys"
    "''sample_values'' \<in> set outlier_keys" "''explain'' \<in> set outlier_keys"
    by (simp_all add: outlier_keys_def)
  then show ?thesis
    unfolding add_outlier_evidence_def by (simp only: filter_dict_set Let_def)
qed

lemma list_all2_same: "(\<And>x. P x x) \<Longrightarrow> list_all2 P xs xs"
  by (simp add: list_all2_refl)

lemma enrich_first_duplicate_step:
  "list_all2 duplicate_step rs (enrich_first_duplicate df idx rs)"
proof (induction rs)
  case Nil
  show ?case by simp
next
  case (Cons r rs)
  show ?case
  proof (cases "name r = ''Duplicate Rows'' \<and> issues r \<noteq> []")
    case True
    then have "adds_only duplicate_keys (issues r)
                 (add_duplicate_evidence df idx (hd (issues r)) # tl (issues r))"
      by (cases "issues r") (simp_all add: adds_only_def add_duplicate_evidence_frame)
    with True have "duplicate_step r
        (r\<lparr>issues := add_duplicate_evidence df idx (hd (issues r)) # tl (issues r)\<rparr>)"
      by (simp add: duplicate_step_def)
    moreover have "list_all2 duplicate_step rs rs"
      by (rule list_all2_same) (simp add: duplicate_step_def)
    ultimately show ?thesis using True by simp
  next
    case False
    moreover have "duplicate_step r r" by (simp add: duplicate_step_def)
    ultimately show ?thesis using Cons.IH by auto
  qed
qed

lemma enrich_duplicates_step: "list_all2 duplicate_step rs (enrich_duplicates df rs)"
proof -
  have "list_all2 duplicate_step rs rs"
    by (rule list_all2_same) (simp add: duplicate_step_def)
  then show ?thesis
    by (simp add: enrich_duplicates_def Let_def enrich_first_duplicate_step)
qed

lemma enrich_outlier_step:
  assumes "enrich_outlier L df r = Inr r'"
  shows "outlier_step r r'"
proof (cases "r' = r")
  case True
  then show ?thesis by (simp add: outlier_step_def)
next
  case False
  with assms obtain c lo hi where sw: "startswith (name r) ''IQR Outliers''"
    and ne: "issues r \<noteq> []"
    and r': "r' = r\<lparr>issues := add_outlier_evidence L c lo hi (hd (issues r)) # tl (issues r)\<rparr>"
    by (auto simp: enrich_outlier_def Let_def split: if_splits option.splits prod.splits)
  from ne have "adds_only outlier_keys (issues r)
                 (add_outlier_evidence L c lo hi (hd (issues r)) # tl (issues r))"
    by (cases "issues r") (simp_all add: adds_only_def add_outlier_evidence_frame)
  with sw r' show ?thesis by (simp add: outlier_step_def)
qed

lemma enrich_outliers_step:
  "enrich_outliers L df rs = Inr rs' \<Longrightarrow> list_all2 outlier_step rs rs'"
proof (induction rs arbitrary: rs')
  case Nil
  then show ?case by simp
next
  case (Cons r rs)
  from Cons.prems obtain r1 rs1 where a: "enrich_outlier L df r = Inr r1"
    and b: "enrich_outliers L df rs = Inr rs1" and c: "rs' = r1 # rs1"
    by (auto split: sum.splits)
  from a have "outlier_step r r1" by (rule enrich_outlier_step)
  moreover from b have "list_all2 outlier_step rs rs1" by (rule Cons.IH)
  ultimately show ?case using c by simp
qed

lemma not_both_names: "name r = ''Duplicate Rows'' \<Longrightarrow> \<not> startswith (name r) ''IQR Outliers''"
  by simp

lemma steps_frame:
  assumes "duplicate_step r r1" and "outlier_step r1 r2"
  shows "enrichment_frame r r2"
proof -
  consider (none) "r1 = r" "r2 = r1"
    | (dup) "name r = ''Duplicate Rows''" "name r1 = name r" "severity r1 = severity r"
        "impact r1 = impact r" "adds_only duplicate_keys (issues r) (issues r1)" "r2 = r1"
    | (out) "r1 = r" "startswith (name r1) ''IQR Outliers''" "name r2 = name r1"
        "severity r2 = severity r1" "impact r2 = impact r1"
        "adds_only outlier_keys (issues r1) (issues r2)"
    | (both) "name r = ''Duplicate Rows''" "name r1 = name r" "startswith (name r1) ''IQR Outliers''"
    using assms unfolding duplicate_step_def outlier_step_def by blast
  then show ?thesis
  proof cases
    case none
    then show ?thesis by (simp add: enrichment_frame_def adds_only_refl)
  next
    case dup
    then show ?thesis by (simp add: enrichment_frame_def)
  next
    case out
    then have "name r \<noteq> ''Duplicate Rows''" using not_both_names [of r] by auto
    with out show ?thesis by (simp add: enrichment_frame_def)
  next
    case both
    then show ?thesis using not_both_names [of r] by simp
  qed
qed

text \<open>
  Claim C9. For every finding list on which the enrichment returns, each finding keeps its
  name, severity and impact; a finding named "Duplicate Rows" has at most the keys
  row_indices, sample_rows and columns set in its first issue record, a finding whose name
  starts with "IQR Outliers" at most the keys column, row_indices, sample_values and
  explain, and every other finding is returned as it was.
\<close>

theorem C9_enrichment_frame:
  assumes "enrich L df results = Inr enriched"
  shows "list_all2 enrichment_frame results enriched"
proof -
  have "list_all2 duplicate_step results (enrich_duplicates df results)"
    by (rule enrich_duplicates_step)
  moreover have "list_all2 outlier_step (enrich_duplicates df results) enriched"
    using assms unfolding enrich_def by (rule enrich_outliers_step)
  ultimately show ?thesis
    by (rule list_all2_trans [rotated]) (rule steps_frame)
qed

lemma enrich_duplicates_example:
  "enrich_duplicates ex_sales ex_findings =
     [\<lparr>name = ''Duplicate Rows'', severity = ''major'',
        issues = [[(''duplicates'', JInt 1),
                   (''row_indices'', JList [JInt 0, JInt 1]),
                   (''sample_rows'', JList [JDict [(''amount'', JNum 5)], JDict [(''amount'', JNum 5)]]),
                   (''columns'', JList [JStr ''amount''])]],
        impact = 1 / 10\<rparr>,
      \<lparr>name = ''IQR Outliers: amount'', severity = ''major'',
        issues = [[(''count'', JInt 1), (''lo'', JNum 0), (''hi'', JNum 10)]], impact = 1 / 10\<rparr>,
      \<lparr>name = ''Invalid Dates: day'', severity = ''minor'',
        issues = [[(''invalid'', JInt 2)]], impact = 1 / 5\<rparr>]"
  by (simp add: enrich_duplicates_def ex_sales_def ex_findings_def all_rows_def df_empty_def
      df_rows_def duplicated_keep_false_def mask_positions_def add_duplicate_evidence_def
      row_record_def cell_json_def column_names_def
      upt_rec [of _ "numeral _"] upt_rec [of 0 "Suc _"] Let_def)

lemma enrich_example: "enrich sample_pandas ex_sales ex_findings = Inr ex_enriched"
  unfolding enrich_def enrich_duplicates_example
  by (simp add: ex_enriched_def ex_sales_def enrich_outlier_def strip_def is_space_def
      is_space2_def is_space3_def
      get_column_def bound_of_def dict_get_def add_outlier_evidence_def outlier_positions_def
      List.map_filter_def sample_pandas_def
      upt_rec [of _ "numeral _"] upt_rec [of 0 "Suc _"] Let_def)

theorem C9_enrichment_frame_witness:
  "enrich sample_pandas ex_sales ex_findings = Inr ex_enriched
   \<and> list_all2 enrichment_frame ex_findings ex_enriched"
  using C9_enrichment_frame [of sample_pandas ex_sales ex_findings ex_enriched]
  by (simp add: enrich_example)

section \<open>Every emitted finding is well formed\<close>

lemma norm_impact_range: "0 \<le> norm_impact x cap \<and> norm_impact x cap \<le> 1"
  by (simp add: norm_impact_def)

lemma list_all_concat_map:
  "(\<And>x. x \<in> set xs \<Longrightarrow> list_all P (f x)) \<Longrightarrow> list_all P (concat (map f xs))"
  by (induction xs) auto

lemma mean_true_nonneg: "0 \<le> mean_true flags"
  by (simp add: mean_true_def)

lemma check_schema_ok: "list_all finding_ok (check_schema df b)"
  by (simp add: check_schema_def Let_def finding_ok_def norm_impact_range)

lemma check_primary_key_ok:
  "check_primary_key df pk = Inr rs \<Longrightarrow> list_all finding_ok rs"
  by (auto simp: check_primary_key_def Let_def finding_ok_def norm_impact_range
      split: if_splits sum.splits)

lemma check_missing_duplicates_types_ok:
  "list_all finding_ok (check_missing_duplicates_types df)"
  by (simp add: check_missing_duplicates_types_def Let_def finding_ok_def norm_impact_range)

lemma outliers_of_column_ok: "list_all finding_ok (outliers_of_column L c)"
  by (simp add: outliers_of_column_def Let_def finding_ok_def norm_impact_range
      split: prod.splits)

lemma check_outliers_iqr_ok: "list_all finding_ok (check_outliers_iqr L df)"
  unfolding check_outliers_iqr_def by (rule list_all_concat_map) (rule outliers_of_column_ok)

lemma rare_of_column_ok: "list_all finding_ok (rare_of_column L m c)"
  by (simp add: rare_of_column_def Let_def finding_ok_def norm_impact_range)

lemma check_rare_categories_ok: "list_all finding_ok (check_rare_categories L df)"
  unfolding check_rare_categories_def by (rule list_all_concat_map) (rule rare_of_column_ok)

lemma semantic_of_column_ok: "list_all finding_ok (semantic_of_column L c)"
  using mean_true_nonneg
  by (simp add: semantic_of_column_def Let_def finding_ok_def)

lemma check_semantic_regex_ok: "list_all finding_ok (check_semantic_regex L df)"
  unfolding check_semantic_regex_def by (rule list_all_concat_map) (rule semantic_of_column_ok)

lemma invalid_dates_of_ok: "list_all finding_ok (invalid_dates_of df p)"
  by (simp add: invalid_dates_of_def Let_def finding_ok_def norm_impact_range)

lemma check_dates_ok: "list_all finding_ok (check_dates L df)"
proof -
  have "list_all finding_ok (concat (map (invalid_dates_of df)
          (parse_dates L (filter (is_date_column L) (columns df)))))"
    by (rule list_all_concat_map) (rule invalid_dates_of_ok)
  then show ?thesis
    by (simp add: check_dates_def Let_def finding_ok_def norm_impact_range
        split: option.splits)
qed

lemma dtype_drift_none:
  "list_all (\<lambda>(c, e). case get_column df c of None \<Rightarrow> True | Some col \<Rightarrow> dtype col = e) ds
   \<Longrightarrow> dtype_drift df ds = []"
  by (induction ds) (auto split: option.splits)

lemma check_schema_clean: "schema_matches df bl \<Longrightarrow> check_schema df (Some bl) = []"
  by (auto simp: check_schema_def schema_matches_def Let_def dtype_drift_none filter_empty_conv)

lemma rows_equal_to_earlier_distinct: "distinct keys \<Longrightarrow> rows_equal_to_earlier keys = []"
  by (auto simp: rows_equal_to_earlier_def filter_empty_conv list_ex_iff nth_eq_iff_index_eq)

lemma check_primary_key_clean:
  assumes "set pk \<subseteq> set (column_names df)" and "distinct (key_values df pk)"
  shows "check_primary_key df pk = Inr []"
proof (cases "pk = []")
  case True
  then show ?thesis by (simp add: check_primary_key_def)
next
  case False
  then show ?thesis
    by (simp add: check_primary_key_def key_rows_present [OF assms(1)] count_true_duplicated
        rows_equal_to_earlier_distinct [OF assms(2)])
qed

lemma isna_sum_zero: "NA \<notin> set (cells c) \<Longrightarrow> isna_sum c = 0"
  by (auto simp: isna_sum_def filter_empty_conv)

lemma check_missing_duplicates_types_clean:
  assumes "no_missing_or_duplicate_rows df"
  shows "check_missing_duplicates_types df = []"
proof -
  from assms have a: "\<forall>c\<in>set (columns df). isna_sum c = 0" and d: "distinct (all_rows df)"
    by (auto simp: no_missing_or_duplicate_rows_def list_all_iff isna_sum_zero)
  from a have "filter (\<lambda>(c, v). 0 < v) (map (\<lambda>c. (cname c, isna_sum c)) (columns df)) = []"
    by (auto simp: filter_empty_conv)
  moreover from d have "count_true (duplicated (all_rows df)) = 0"
    by (simp add: count_true_duplicated rows_equal_to_earlier_distinct)
  ultimately show ?thesis
    by (simp add: check_missing_duplicates_types_def Let_def)
qed

lemma concat_map_empty: "(\<And>x. x \<in> set xs \<Longrightarrow> f x = []) \<Longrightarrow> concat (map f xs) = []"
  by (induction xs) auto

lemma check_outliers_iqr_clean:
  assumes "no_outliers L df"
  shows "check_outliers_iqr L df = []"
  unfolding check_outliers_iqr_def
proof (rule concat_map_empty)
  fix c assume "c \<in> set (columns df)"
  with assms have c: "is_numeric_dtype L c \<longrightarrow> 10 \<le> length (numeric_values L c) \<longrightarrow>
                 (case iqr_bounds (numeric_values L c) of
                    (q1, q3, iqr, lo, hi) \<Rightarrow> list_all (\<lambda>x. lo \<le> x \<and> x \<le> hi) (numeric_values L c))"
    by (simp add: no_outliers_def list_all_iff)
  show "outliers_of_column L c = []"
  proof (cases "is_numeric_dtype L c \<and> 10 \<le> length (numeric_values L c)")
    case False
    then show ?thesis by (auto simp: outliers_of_column_def Let_def)
  next
    case True
    obtain q1 q3 iqr lo hi where b: "iqr_bounds (numeric_values L c) = (q1, q3, iqr, lo, hi)"
      by (cases "iqr_bounds (numeric_values L c)") auto
    with c True have "list_all (\<lambda>x. lo \<le> x \<and> x \<le> hi) (numeric_values L c)" by simp
    then have "outliers (numeric_values L c) lo hi = []"
      by (auto simp: outliers_def filter_empty_conv list_all_iff)
    with True b show ?thesis by (simp add: outliers_of_column_def Let_def)
  qed
qed

lemma value_counts_set:
  "set (value_counts s) = (\<lambda>v. (v, real (count_list s v) / real (length s))) ` set s"
  by (simp add: value_counts_def)

lemma check_rare_categories_clean:
  assumes "no_rare_categories L df"
  shows "check_rare_categories L df = []"
  unfolding check_rare_categories_def
proof (rule concat_map_empty)
  fix c assume "c \<in> set (columns df)"
  with assms have c: "is_string_dtype L c \<or> dtype c = ''category'' \<longrightarrow>
      (\<forall>v\<in>set (map (astype_str L) (cells c)).
          0.01 \<le> real (count_list (map (astype_str L) (cells c)) v)
                    / real (length (map (astype_str L) (cells c))))"
    by (simp add: no_rare_categories_def list_all_iff Let_def)
  show "rare_of_column L 0.01 c = []"
  proof (cases "is_string_dtype L c \<or> dtype c = ''category''")
    case False
    then show ?thesis by (simp add: rare_of_column_def)
  next
    case True
    with c have "filter (\<lambda>(v, f). f < 0.01) (value_counts (map (astype_str L) (cells c))) = []"
      unfolding filter_empty_conv value_counts_set by (auto simp: not_less)
    then show ?thesis by (simp add: rare_of_column_def Let_def)
  qed
qed

lemma check_semantic_regex_clean:
  assumes "no_semantic_violations L df"
  shows "check_semantic_regex L df = []"
  unfolding check_semantic_regex_def
proof (rule concat_map_empty)
  fix c assume "c \<in> set (columns df)"
  with assms show "semantic_of_column L c = []"
    by (auto simp: no_semantic_violations_def list_all_iff Let_def semantic_of_column_def)
qed

lemma parse_dates_sound:
  "(k, s) \<in> set (parse_dates L cs) \<Longrightarrow> \<exists>c\<in>set cs. cname c = k \<and> to_datetime L c = Some s"
  by (induction cs) (auto split: option.splits)

lemma check_dates_clean:
  assumes "no_date_problems L df"
  shows "check_dates L df = []"
proof -
  let ?parsed = "parse_dates L (filter (is_date_column L) (columns df))"
  have "invalid_dates_of df p = []" if "p \<in> set ?parsed" for p
  proof -
    obtain k s where p: "p = (k, s)" by (cases p)
    from that have "(k, s) \<in> set ?parsed" by (simp add: p)
    then have "\<exists>c\<in>set (filter (is_date_column L) (columns df)).
                 cname c = k \<and> to_datetime L c = Some s"
      by (rule parse_dates_sound)
    then obtain c where c: "c \<in> set (columns df)" "is_date_column L c"
      "to_datetime L c = Some s"
      by auto
    with assms have "None \<notin> set s"
      by (auto simp: no_date_problems_def list_all_iff)
    then show ?thesis
      by (auto simp: invalid_dates_of_def count_nat_def p filter_empty_conv)
  qed
  then have first: "concat (map (invalid_dates_of df) ?parsed) = []"
    by (rule concat_map_empty)
  have second: "ship_before_order ship ordered = 0"
    if "map_of ?parsed ''order_date'' = Some ordered" "map_of ?parsed ''ship_date'' = Some ship"
    for ordered ship
  proof -
    from that(1) have "(''order_date'', ordered) \<in> set ?parsed" by (rule map_of_SomeD)
    then have "\<exists>c\<in>set (filter (is_date_column L) (columns df)).
                 cname c = ''order_date'' \<and> to_datetime L c = Some ordered"
      by (rule parse_dates_sound)
    then obtain c1 where c1: "c1 \<in> set (columns df)" "cname c1 = ''order_date''"
      "to_datetime L c1 = Some ordered"
      by auto
    from that(2) have "(''ship_date'', ship) \<in> set ?parsed" by (rule map_of_SomeD)
    then have "\<exists>c\<in>set (filter (is_date_column L) (columns df)).
                 cname c = ''ship_date'' \<and> to_datetime L c = Some ship"
      by (rule parse_dates_sound)
    then obtain c2 where c2: "c2 \<in> set (columns df)" "cname c2 = ''ship_date''"
      "to_datetime L c2 = Some ship"
      by auto
    from assms have "\<forall>c1\<in>set (columns df). \<forall>c2\<in>set (columns df).
            cname c1 = ''order_date'' \<longrightarrow> cname c2 = ''ship_date'' \<longrightarrow>
            (case (to_datetime L c1, to_datetime L c2) of
               (Some ordered, Some ship) \<Rightarrow> ship_before_order ship ordered = 0
             | _ \<Rightarrow> True)"
      by (simp add: no_date_problems_def)
    with c1(1) c2(1) have "cname c1 = ''order_date'' \<longrightarrow> cname c2 = ''ship_date'' \<longrightarrow>
            (case (to_datetime L c1, to_datetime L c2) of
               (Some ordered, Some ship) \<Rightarrow> ship_before_order ship ordered = 0
             | _ \<Rightarrow> True)"
      by blast
    with c1(2,3) c2(2,3) show ?thesis by simp
  qed
  show ?thesis
    using first second by (auto simp: check_dates_def Let_def split: option.splits)
qed

text \<open>
  Claim C2. Every finding returned by any of the seven checks has a non-empty issues list
  and an impact in the closed interval [0,1]; and a check that has nothing to detect in the
  dataset returns the empty list.
\<close>

theorem C2_findings_invariant:
  "list_all finding_ok (check_schema df b)
   \<and> (\<forall>rs. check_primary_key df pk = Inr rs \<longrightarrow> list_all finding_ok rs)
   \<and> list_all finding_ok (check_missing_duplicates_types df)
   \<and> list_all finding_ok (check_outliers_iqr L df)
   \<and> list_all finding_ok (check_rare_categories L df)
   \<and> list_all finding_ok (check_semantic_regex L df)
   \<and> list_all finding_ok (check_dates L df)
   \<and> (schema_matches df bl \<longrightarrow> check_schema df (Some bl) = [])
   \<and> (set pk \<subseteq> set (column_names df) \<and> distinct (key_values df pk)
        \<longrightarrow> check_primary_key df pk = Inr [])
   \<and> (no_missing_or_duplicate_rows df \<longrightarrow> check_missing_duplicates_types df = [])
   \<and> (no_outliers L df \<longrightarrow> check_outliers_iqr L df = [])
   \<and> (no_rare_categories L df \<longrightarrow> check_rare_categories L df = [])
   \<and> (no_semantic_violations L df \<longrightarrow> check_semantic_regex L df = [])
   \<and> (no_date_problems L df \<longrightarrow> check_dates L df = [])"
proof -
  have "\<forall>rs. check_primary_key df pk = Inr rs \<longrightarrow> list_all finding_ok rs"
    using check_primary_key_ok by blast
  moreover have "set pk \<subseteq> set (column_names df) \<and> distinct (key_values df pk)
        \<longrightarrow> check_primary_key df pk = Inr []"
    using check_primary_key_clean by blast
  ultimately show ?thesis
    using check_schema_ok check_missing_duplicates_types_ok check_outliers_iqr_ok
      check_rare_categories_ok check_semantic_regex_ok check_dates_ok
      check_schema_clean check_missing_duplicates_types_clean check_outliers_iqr_clean
      check_rare_categories_clean check_semantic_regex_clean check_dates_clean
    by presburger
qed

lemma ex_sales_duplicate_finding:
  "check_missing_duplicates_types ex_sales =
     [\<lparr>name = ''Duplicate Rows'', severity = ''major'',
        issues = [[(''duplicates'', JInt 1)]], impact = 1 / 10\<rparr>]"
  by (simp add: check_missing_duplicates_types_def ex_sales_def isna_sum_def all_rows_def
      df_empty_def df_rows_def duplicated_def count_true_def norm_impact_def
      upt_rec [of _ "numeral _"] upt_rec [of 0 "Suc _"] Let_def)

lemma ex_orders_clean:
  "schema_matches ex_orders ex_baseline"
  "set [''amount''] \<subseteq> set (column_names ex_orders)"
  "distinct (key_values ex_orders [''amount''])"
  "no_missing_or_duplicate_rows ex_orders"
  "no_outliers sample_pandas ex_orders"
  "no_rare_categories sample_pandas ex_orders"
  "no_semantic_violations sample_pandas ex_orders"
  "no_date_problems sample_pandas ex_orders"
  by (simp_all add: schema_matches_def ex_baseline_def ex_orders_def column_names_def
      get_column_def key_values_def no_missing_or_duplicate_rows_def all_rows_def df_empty_def
      df_rows_def no_outliers_def numeric_values_def List.map_filter_def sample_pandas_def
      no_rare_categories_def no_semantic_violations_def no_date_problems_def
      is_date_column_def lower_def lower_char_def
      upt_rec [of _ "numeral _"] upt_rec [of 0 "Suc _"])

theorem C2_findings_invariant_witness:
  "check_missing_duplicates_types ex_sales =
     [\<lparr>name = ''Duplicate Rows'', severity = ''major'',
        issues = [[(''duplicates'', JInt 1)]], impact = 1 / 10\<rparr>]
   \<and> finding_ok \<lparr>name = ''Duplicate Rows'', severity = ''major'',
                  issues = [[(''duplicates'', JInt 1)]], impact = 1 / 10\<rparr>
   \<and> schema_matches ex_orders ex_baseline
   \<and> check_schema ex_orders (Some ex_baseline) = []
   \<and> set [''amount''] \<subseteq> set (column_names ex_orders)
   \<and> distinct (key_values ex_orders [''amount''])
   \<and> check_primary_key ex_orders [''amount''] = Inr []
   \<and> no_missing_or_duplicate_rows ex_orders
   \<and> check_missing_duplicates_types ex_orders = []
   \<and> no_outliers sample_pandas ex_orders
   \<and> check_outliers_iqr sample_pandas ex_orders = []
   \<and> no_rare_categories sample_pandas ex_orders
   \<and> check_rare_categories sample_pandas ex_orders = []
   \<and> no_semantic_violations sample_pandas ex_orders
   \<and> check_semantic_regex sample_pandas ex_orders = []
   \<and> no_date_problems sample_pandas ex_orders
   \<and> check_dates sample_pandas ex_orders = []"
  using C2_findings_invariant [of ex_sales None "[''amount'']" sample_pandas ex_baseline]
    C2_findings_invariant [of ex_orders None "[''amount'']" sample_pandas ex_baseline]
    ex_sales_duplicate_finding ex_orders_clean
  by simp

section \<open>Duplicate rows: the count and the row indices\<close>

lemma check_schema_enrichable: "list_all enrichable (check_schema df b)"
  by (simp add: check_schema_def Let_def enrichable_def)

lemma check_primary_key_enrichable:
  "check_primary_key df pk = Inr rs \<Longrightarrow> list_all enrichable rs"
  by (auto simp: check_primary_key_def Let_def enrichable_def split: if_splits sum.splits)

lemma outliers_of_column_enrichable: "list_all enrichable (outliers_of_column L c)"
  by (simp add: outliers_of_column_def Let_def enrichable_def split: prod.splits)

lemma check_outliers_iqr_enrichable: "list_all enrichable (check_outliers_iqr L df)"
  unfolding check_outliers_iqr_def
  by (rule list_all_concat_map) (rule outliers_of_column_enrichable)

lemma rare_of_column_enrichable: "list_all enrichable (rare_of_column L m c)"
  by (simp add: rare_of_column_def Let_def enrichable_def)

lemma check_rare_categories_enrichable: "list_all enrichable (check_rare_categories L df)"
  unfolding check_rare_categories_def
  by (rule list_all_concat_map) (rule rare_of_column_enrichable)

lemma semantic_of_column_enrichable: "list_all enrichable (semantic_of_column L c)"
  by (simp add: semantic_of_column_def Let_def enrichable_def)

lemma check_semantic_regex_enrichable: "list_all enrichable (check_semantic_regex L df)"
  unfolding check_semantic_regex_def
  by (rule list_all_concat_map) (rule semantic_of_column_enrichable)

lemma invalid_dates_of_enrichable: "list_all enrichable (invalid_dates_of df p)"
  by (simp add: invalid_dates_of_def Let_def enrichable_def)

lemma check_dates_enrichable: "list_all enrichable (check_dates L df)"
proof -
  have "list_all enrichable (concat (map (invalid_dates_of df)
          (parse_dates L (filter (is_date_column L) (columns df)))))"
    by (rule list_all_concat_map) (rule invalid_dates_of_enrichable)
  then show ?thesis
    by (simp add: check_dates_def Let_def enrichable_def temporal_rule_name_def
        split: option.splits)
qed

lemma enrichable_not_duplicate: "list_all enrichable rs \<Longrightarrow> filter (\<lambda>r. name r = ''Duplicate Rows'') rs = []"
  by (auto simp: filter_empty_conv list_all_iff enrichable_def)

lemma missing_values_enrichable:
  "enrichable \<lparr>name = ''Missing Values'', severity = s, issues = i, impact = x\<rparr>"
  by (simp add: enrichable_def)

lemma check_missing_duplicates_types_split:
  assumes "0 < count_true (duplicated (all_rows df))"
  shows "\<exists>mv. check_missing_duplicates_types df =
            mv @ [\<lparr>name = ''Duplicate Rows'', severity = ''major'',
                    issues = [[(''duplicates'', JInt (int (count_true (duplicated (all_rows df)))))]],
                    impact = norm_impact (real (count_true (duplicated (all_rows df))))
                               (max 10 (real (nrows df) * 0.03))\<rparr>]
          \<and> list_all enrichable mv"
  using assms
  by (simp add: check_missing_duplicates_types_def Let_def missing_values_enrichable)

lemma run_checks_split:
  assumes "run_checks L df b = Inr results" and "0 < count_true (duplicated (all_rows df))"
  shows "\<exists>pre post. results =
            pre @ \<lparr>name = ''Duplicate Rows'', severity = ''major'',
                    issues = [[(''duplicates'', JInt (int (count_true (duplicated (all_rows df)))))]],
                    impact = norm_impact (real (count_true (duplicated (all_rows df))))
                               (max 10 (real (nrows df) * 0.03))\<rparr> # post
          \<and> list_all enrichable pre \<and> list_all enrichable post"
proof -
  let ?d = "\<lparr>name = ''Duplicate Rows'', severity = ''major'',
                    issues = [[(''duplicates'', JInt (int (count_true (duplicated (all_rows df)))))]],
                    impact = norm_impact (real (count_true (duplicated (all_rows df))))
                               (max 10 (real (nrows df) * 0.03))\<rparr>"
  define pkres where "pkres = (if \<not> falsy_baseline b \<and> b_primary_key (the b) \<noteq> None
            then check_primary_key df (the (b_primary_key (the b)))
            else Inr [])"
  have rc: "run_checks L df b =
      (case pkres of Inl e \<Rightarrow> Inl e
       | Inr pk_results \<Rightarrow>
          Inr (check_schema df b @ pk_results @ check_missing_duplicates_types df
               @ check_outliers_iqr L df @ check_rare_categories L df
               @ check_semantic_regex L df @ check_dates L df))"
    by (simp add: run_checks_def pkres_def)
  from assms(1) obtain pkr where a: "pkres = Inr pkr"
    and res: "results = check_schema df b @ pkr @ check_missing_duplicates_types df
               @ check_outliers_iqr L df @ check_rare_categories L df
               @ check_semantic_regex L df @ check_dates L df"
    unfolding rc by (cases pkres) auto
  have pkr: "list_all enrichable pkr"
  proof (cases "\<not> falsy_baseline b \<and> b_primary_key (the b) \<noteq> None")
    case True
    with a have "check_primary_key df (the (b_primary_key (the b))) = Inr pkr"
      by (simp add: pkres_def)
    then show ?thesis by (rule check_primary_key_enrichable)
  next
    case False
    with a have "pkr = []" by (auto simp: pkres_def split: if_splits)
    then show ?thesis by simp
  qed
  from assms(2) obtain mv where mv: "check_missing_duplicates_types df = mv @ [?d]"
    "list_all enrichable mv"
    using check_missing_duplicates_types_split by blast
  let ?pre = "check_schema df b @ pkr @ mv"
  let ?post = "check_outliers_iqr L df @ check_rare_categories L df
               @ check_semantic_regex L df @ check_dates L df"
  have "results = ?pre @ ?d # ?post" by (simp add: res mv(1))
  moreover have "list_all enrichable ?pre"
    by (simp add: check_schema_enrichable pkr mv(2))
  moreover have "list_all enrichable ?post"
    by (simp add: check_outliers_iqr_enrichable check_rare_categories_enrichable
        check_semantic_regex_enrichable check_dates_enrichable)
  ultimately show ?thesis by blast
qed

lemma enrich_first_duplicate_at:
  assumes "list_all enrichable pre" and "name r = ''Duplicate Rows''" and "issues r \<noteq> []"
  shows "enrich_first_duplicate df idx (pre @ r # post) =
           pre @ r\<lparr>issues := add_duplicate_evidence df idx (hd (issues r)) # tl (issues r)\<rparr> # post"
  using assms by (induction pre) (auto simp: enrichable_def)

lemma enrich_outlier_enrichable:
  assumes "enrichable r"
  shows "\<exists>r'. enrich_outlier L df r = Inr r'"
proof (cases "startswith (name r) ''IQR Outliers''")
  case False
  then show ?thesis by (simp add: enrich_outlier_def)
next
  case True
  with assms obtain cnt lo hi where
    i: "issues r = [[(''count'', cnt), (''lo'', JNum lo), (''hi'', JNum hi)]]"
    by (auto simp: enrichable_def)
  have "bound_of (dict_get (hd (issues r)) ''lo'') = Some lo"
    "bound_of (dict_get (hd (issues r)) ''hi'') = Some hi"
    by (simp_all add: i dict_get_def bound_of_def)
  then show ?thesis
    by (simp add: enrich_outlier_def Let_def split: option.splits)
qed

lemma enrich_outlier_duplicate:
  "name r = ''Duplicate Rows'' \<Longrightarrow> enrich_outlier L df r = Inr r"
  by (simp add: enrich_outlier_def)

lemma enrich_outliers_total:
  "list_all (\<lambda>r. \<exists>r'. enrich_outlier L df r = Inr r') rs \<Longrightarrow> \<exists>rs'. enrich_outliers L df rs = Inr rs'"
  by (induction rs) auto

lemma outlier_step_keeps_duplicates:
  "list_all2 outlier_step rs rs' \<Longrightarrow>
     filter (\<lambda>r. name r = ''Duplicate Rows'') rs' = filter (\<lambda>r. name r = ''Duplicate Rows'') rs"
proof (induction rule: list_all2_induct)
  case Nil
  show ?case by simp
next
  case (Cons r rs r' rs')
  from Cons.hyps(1) consider (same) "r' = r"
    | (changed) "startswith (name r) ''IQR Outliers''" "name r' = name r"
    unfolding outlier_step_def by blast
  then have "filter (\<lambda>r. name r = ''Duplicate Rows'') [r']
           = filter (\<lambda>r. name r = ''Duplicate Rows'') [r]"
  proof cases
    case same
    then show ?thesis by simp
  next
    case changed
    then have "name r \<noteq> ''Duplicate Rows''" using not_both_names [of r] by blast
    with changed(2) show ?thesis by simp
  qed
  with Cons.IH show ?case by (simp split: if_splits)
qed

lemma length_filter_mono:
  "(\<And>x. x \<in> set xs \<Longrightarrow> P x \<Longrightarrow> Q x) \<Longrightarrow> length (filter P xs) \<le> length (filter Q xs)"
  by (induction xs) auto

lemma length_filter_strict:
  assumes "\<And>x. x \<in> set xs \<Longrightarrow> P x \<Longrightarrow> Q x" and "k \<in> set xs" and "Q k" and "\<not> P k"
  shows "length (filter P xs) < length (filter Q xs)"
  using assms
proof (induction xs)
  case Nil
  then show ?case by simp
next
  case (Cons x xs)
  have le: "length (filter P xs) \<le> length (filter Q xs)"
    using Cons.prems(1) by (intro length_filter_mono) auto
  show ?case
  proof (cases "x = k")
    case True
    with Cons.prems(3,4) le show ?thesis by simp
  next
    case False
    with Cons.prems(2) have "k \<in> set xs" by simp
    then have "length (filter P xs) < length (filter Q xs)"
      using Cons.IH Cons.prems(1,3,4) by simp
    moreover have "P x \<Longrightarrow> Q x" using Cons.prems(1) by simp
    ultimately show ?thesis by auto
  qed
qed

lemma more_positions_than_duplicates:
  assumes "\<not> distinct rows"
  shows "length (rows_equal_to_earlier rows) < length (rows_equal_to_other rows)"
proof -
  from assms obtain i j where ij: "i < j" "j < length rows" "rows ! i = rows ! j"
    by (metis distinct_conv_nth linorder_neqE_nat)
  define k where "k = (LEAST k. rows ! k = rows ! j)"
  have kv: "rows ! k = rows ! j" unfolding k_def by (rule LeastI [of _ i]) (rule ij(3))
  have ki: "k \<le> i" unfolding k_def by (rule Least_le) (rule ij(3))
  have least: "rows ! m \<noteq> rows ! j" if "m < k" for m
    using that not_less_Least [of m "\<lambda>k. rows ! k = rows ! j"] by (simp add: k_def)
  have kn: "k < length rows" using ki ij by simp
  have "length (filter (\<lambda>i. list_ex (\<lambda>j. rows ! j = rows ! i) [0..<i]) [0..<length rows])
      < length (filter (\<lambda>i. list_ex (\<lambda>j. j \<noteq> i \<and> rows ! j = rows ! i) [0..<length rows])
                  [0..<length rows])"
  proof (rule length_filter_strict [where k = k])
    fix x assume "x \<in> set [0..<length rows]" "list_ex (\<lambda>j. rows ! j = rows ! x) [0..<x]"
    then show "list_ex (\<lambda>j. j \<noteq> x \<and> rows ! j = rows ! x) [0..<length rows]"
      by (auto simp: list_ex_iff)
  next
    show "k \<in> set [0..<length rows]" using kn by simp
  next
    have "j \<noteq> k" using ki ij(1) by simp
    with ij(2) kv show "list_ex (\<lambda>j. j \<noteq> k \<and> rows ! j = rows ! k) [0..<length rows]"
      by (auto simp: list_ex_iff)
  next
    show "\<not> list_ex (\<lambda>j. rows ! j = rows ! k) [0..<k]"
      using least kv by (auto simp: list_ex_iff)
  qed
  then show ?thesis by (simp add: rows_equal_to_earlier_def rows_equal_to_other_def)
qed

lemma positions_of_value:
  "length (filter (\<lambda>i. rows ! i = v) [0..<length rows]) = count_list rows v"
proof -
  have "length (filter (\<lambda>i. rows ! i = v) [0..<length rows])
      = card {i. i < length rows \<and> rows ! i = v}"
    by (simp add: distinct_length_filter Int_def conj_commute)
  also have "\<dots> = length (filter (\<lambda>x. x = v) rows)"
    by (simp add: length_filter_conv_card)
  also have "\<dots> = count_list rows v"
    by (induction rows) auto
  finally show ?thesis .
qed

lemma rows_equal_to_other_of_value:
  "length (filter (\<lambda>i. rows ! i = v) (rows_equal_to_other rows))
     = (if 1 < count_list rows v then count_list rows v else 0)"
proof -
  have "rows_equal_to_other rows = filter (\<lambda>i. 1 < count_list rows (rows ! i)) [0..<length rows]"
    unfolding mask_positions_keep_false [symmetric] mask_positions_def duplicated_keep_false_def
    by (auto intro: filter_cong)
  then have "filter (\<lambda>i. rows ! i = v) (rows_equal_to_other rows)
      = filter (\<lambda>i. 1 < count_list rows v \<and> rows ! i = v) [0..<length rows]"
    by (auto intro: filter_cong)
  then show ?thesis
    by (simp add: positions_of_value)
qed

lemma rows_equal_to_earlier_bound: "i \<in> set (rows_equal_to_earlier rows) \<Longrightarrow> i < length rows"
  by (simp add: rows_equal_to_earlier_def)

lemma rows_equal_to_earlier_of_value:
  "length (filter (\<lambda>i. rows ! i = v) (rows_equal_to_earlier rows)) = count_list rows v - 1"
proof (induction rows rule: rev_induct)
  case Nil
  show ?case by (simp add: rows_equal_to_earlier_def)
next
  case (snoc r rs)
  have "filter (\<lambda>i. (rs @ [r]) ! i = v) (rows_equal_to_earlier rs)
      = filter (\<lambda>i. rs ! i = v) (rows_equal_to_earlier rs)"
    by (rule filter_cong) (auto simp: nth_append dest: rows_equal_to_earlier_bound)
  moreover have "r \<in> set rs \<longleftrightarrow> 0 < count_list rs r"
    by (induction rs) auto
  ultimately show ?case
    using snoc.IH by (auto simp: rows_equal_to_earlier_snoc)
qed

lemma rows_equal_to_earlier_nonempty:
  assumes "\<not> distinct rows"
  shows "0 < length (rows_equal_to_earlier rows)"
proof -
  from assms obtain i j where ij: "i < j" "j < length rows" "rows ! i = rows ! j"
    by (metis distinct_conv_nth linorder_neqE_nat)
  then have "j \<in> set (rows_equal_to_earlier rows)"
    by (auto simp: rows_equal_to_earlier_def list_ex_iff)
  then show ?thesis by (cases "rows_equal_to_earlier rows") auto
qed

lemma add_duplicate_evidence_fresh:
  "add_duplicate_evidence df idx [(''duplicates'', v)] =
     [(''duplicates'', v),
      (''row_indices'', JList (map (\<lambda>i. JInt (int i)) idx)),
      (''sample_rows'',
       JList (map (\<lambda>i. JDict (row_record (column_names df) (df_rows df ! i))) (take 10 idx))),
      (''columns'', JList (map JStr (column_names df)))]"
  by (simp add: add_duplicate_evidence_def)

text \<open>
  Claim C10. For every dataset (with a column) in which some row occurs twice, once the
  checks have run the enrichment returns, and the one finding named "Duplicate Rows"
  carries as duplicates the number of rows that equal an earlier row and as row_indices
  the positions of all rows that equal another row: a row value occurring k > 1 times has
  k positions among row_indices and adds k - 1 to the count, so row_indices is strictly
  longer than the count.
\<close>

theorem C10_duplicate_rows_evidence:
  assumes "wf_df df" and "columns df \<noteq> []" and "\<not> distinct (df_rows df)"
    and "run_checks L df b = Inr results"
  shows "(\<exists>enriched. enrich L df results = Inr enriched
         \<and> filter (\<lambda>r. name r = ''Duplicate Rows'') enriched =
             [\<lparr>name = ''Duplicate Rows'', severity = ''major'',
                issues = [[(''duplicates'', JInt (int (length (rows_equal_to_earlier (df_rows df))))),
                           (''row_indices'',
                            JList (map (\<lambda>i. JInt (int i)) (rows_equal_to_other (df_rows df)))),
                           (''sample_rows'',
                            JList (map (\<lambda>i. JDict (row_record (column_names df) (df_rows df ! i)))
                                     (take 10 (rows_equal_to_other (df_rows df))))),
                           (''columns'', JList (map JStr (column_names df)))]],
                impact = spec_normalize (real (length (rows_equal_to_earlier (df_rows df))))
                           (max 10 (3 / 100 * real (nrows df)))\<rparr>])
       \<and> (\<forall>v. length (filter (\<lambda>i. df_rows df ! i = v) (rows_equal_to_other (df_rows df)))
               = (if 1 < count_list (df_rows df) v then count_list (df_rows df) v else 0))
       \<and> (\<forall>v. length (filter (\<lambda>i. df_rows df ! i = v) (rows_equal_to_earlier (df_rows df)))
               = count_list (df_rows df) v - 1)
       \<and> length (rows_equal_to_earlier (df_rows df)) < length (rows_equal_to_other (df_rows df))"
proof -
  let ?rows = "df_rows df"
  let ?n = "length (rows_equal_to_earlier ?rows)"
  let ?idx = "rows_equal_to_other ?rows"
  let ?d = "\<lparr>name = ''Duplicate Rows'', severity = ''major'',
             issues = [[(''duplicates'', JInt (int ?n))]],
             impact = norm_impact (real ?n) (max 10 (real (nrows df) * 0.03))\<rparr>"
  let ?d' = "?d\<lparr>issues := add_duplicate_evidence df ?idx (hd (issues ?d)) # tl (issues ?d)\<rparr>"
  have "nrows df \<noteq> 0"
  proof
    assume "nrows df = 0"
    then have "df_rows df = []" by (simp add: df_rows_def)
    with assms(3) show False by simp
  qed
  with assms(2) have all: "all_rows df = ?rows" by (simp add: all_rows_def df_empty_def)
  have pos: "0 < ?n" using assms(3) by (rule rows_equal_to_earlier_nonempty)
  have strict: "?n < length ?idx" using assms(3) by (rule more_positions_than_duplicates)
  then have idx: "?idx \<noteq> []" by auto
  have cnt: "count_true (duplicated (all_rows df)) = ?n"
    by (simp add: all count_true_duplicated)
  from assms(4) pos obtain pre post where res: "results = pre @ ?d # post"
    and pre: "list_all enrichable pre" and post: "list_all enrichable post"
    using run_checks_split [of L df b results] by (auto simp: cnt)
  have dup: "enrich_duplicates df results = pre @ ?d' # post"
    using idx
    by (simp add: enrich_duplicates_def all mask_positions_keep_false res
        enrich_first_duplicate_at [OF pre])
  have "list_all (\<lambda>r. \<exists>r'. enrich_outlier L df r = Inr r') (pre @ ?d' # post)"
    using pre post
    by (auto simp: list_all_iff enrich_outlier_enrichable enrich_outlier_duplicate)
  then obtain enriched where en: "enrich_outliers L df (pre @ ?d' # post) = Inr enriched"
    using enrich_outliers_total by blast
  then have "list_all2 outlier_step (pre @ ?d' # post) enriched"
    by (rule enrich_outliers_step)
  then have "filter (\<lambda>r. name r = ''Duplicate Rows'') enriched
           = filter (\<lambda>r. name r = ''Duplicate Rows'') (pre @ ?d' # post)"
    by (rule outlier_step_keeps_duplicates)
  also have "\<dots> = [?d']"
    by (simp add: enrichable_not_duplicate [OF pre] enrichable_not_duplicate [OF post])
  also have "?d' = \<lparr>name = ''Duplicate Rows'', severity = ''major'',
                issues = [[(''duplicates'', JInt (int ?n)),
                           (''row_indices'', JList (map (\<lambda>i. JInt (int i)) ?idx)),
                           (''sample_rows'',
                            JList (map (\<lambda>i. JDict (row_record (column_names df) (?rows ! i)))
                                     (take 10 ?idx))),
                           (''columns'', JList (map JStr (column_names df)))]],
                impact = spec_normalize (real ?n) (max 10 (3 / 100 * real (nrows df)))\<rparr>"
    by (simp add: add_duplicate_evidence_fresh spec_normalize_def clamp_def norm_impact_def
        mult.commute)
  finally have "filter (\<lambda>r. name r = ''Duplicate Rows'') enriched = [\<dots>]" .
  moreover have "enrich L df results = Inr enriched"
    by (simp only: enrich_def dup en)
  ultimately show ?thesis
    using strict rows_equal_to_other_of_value [of ?rows] rows_equal_to_earlier_of_value [of ?rows]
    by blast
qed

lemma ex_sales_rows: "df_rows ex_sales = [[Num 5], [Num 5], [Num 900]]"
  by (simp add: df_rows_def ex_sales_def upt_rec [of _ "numeral _"] upt_rec [of 0 "Suc _"])

lemma ex_sales_run_checks:
  "run_checks sample_pandas ex_sales None =
     Inr [\<lparr>name = ''Duplicate Rows'', severity = ''major'',
            issues = [[(''duplicates'', JInt 1)]], impact = 1 / 10\<rparr>]"
proof -
  have "check_outliers_iqr sample_pandas ex_sales = []"
    by (simp add: check_outliers_iqr_def outliers_of_column_def ex_sales_def numeric_values_def
        List.map_filter_def sample_pandas_def)
  moreover have "check_rare_categories sample_pandas ex_sales = []"
    by (simp add: check_rare_categories_def rare_of_column_def ex_sales_def sample_pandas_def)
  moreover have "check_semantic_regex sample_pandas ex_sales = []"
    by (simp add: check_semantic_regex_def semantic_of_column_def ex_sales_def sample_pandas_def)
  moreover have "check_dates sample_pandas ex_sales = []"
    by (simp add: check_dates_def is_date_column_def lower_def lower_char_def ex_sales_def
        sample_pandas_def)
  ultimately show ?thesis
    by (simp add: run_checks_def falsy_baseline_def check_schema_def ex_sales_duplicate_finding)
qed

lemma ex_sales_enrich:
  "enrich sample_pandas ex_sales
     [\<lparr>name = ''Duplicate Rows'', severity = ''major'',
        issues = [[(''duplicates'', JInt 1)]], impact = 1 / 10\<rparr>] =
   Inr [\<lparr>name = ''Duplicate Rows'', severity = ''major'',
          issues = [[(''duplicates'', JInt 1),
                     (''row_indices'', JList [JInt 0, JInt 1]),
                     (''sample_rows'', JList [JDict [(''amount'', JNum 5)], JDict [(''amount'', JNum 5)]]),
                     (''columns'', JList [JStr ''amount''])]],
          impact = 1 / 10\<rparr>]"
  by (simp add: enrich_def enrich_duplicates_def ex_sales_def all_rows_def df_empty_def
      df_rows_def duplicated_keep_false_def mask_positions_def add_duplicate_evidence_def
      row_record_def cell_json_def column_names_def enrich_outlier_def
      upt_rec [of _ "numeral _"] upt_rec [of 0 "Suc _"] Let_def)

theorem C10_duplicate_rows_evidence_witness:
  "wf_df ex_sales \<and> columns ex_sales \<noteq> []
   \<and> df_rows ex_sales = [[Num 5], [Num 5], [Num 900]]
   \<and> \<not> distinct (df_rows ex_sales)
   \<and> run_checks sample_pandas ex_sales None =
       Inr [\<lparr>name = ''Duplicate Rows'', severity = ''major'',
              issues = [[(''duplicates'', JInt 1)]], impact = 1 / 10\<rparr>]
   \<and> enrich sample_pandas ex_sales
        [\<lparr>name = ''Duplicate Rows'', severity = ''major'',
           issues = [[(''duplicates'', JInt 1)]], impact = 1 / 10\<rparr>] =
      Inr [\<lparr>name = ''Duplicate Rows'', severity = ''major'',
          issues = [[(''duplicates'', JInt 1),
                     (''row_indices'', JList [JInt 0, JInt 1]),
                     (''sample_rows'', JList [JDict [(''amount'', JNum 5)], JDict [(''amount'', JNum 5)]]),
                     (''columns'', JList [JStr ''amount''])]],
          impact = 1 / 10\<rparr>]
   \<and> length (rows_equal_to_earlier (df_rows ex_sales)) = 1
   \<and> length (rows_equal_to_other (df_rows ex_sales)) = 2"
  using C10_duplicate_rows_evidence [of ex_sales sample_pandas None
      "[\<lparr>name = ''Duplicate Rows'', severity = ''major'',
          issues = [[(''duplicates'', JInt 1)]], impact = 1 / 10\<rparr>]"]
    ex_sales_run_checks ex_sales_enrich
  by (simp add: ex_sales_rows rows_equal_to_earlier_def rows_equal_to_other_def
      upt_rec [of _ "numeral _"] upt_rec [of 0 "Suc _"])
    (simp add: wf_df_def ex_sales_def)

end
